theory Spec2Isabelle
  imports Complex_Main "HOL-Library.Sublist"
begin

section \<open>Values of the host language\<close>

text \<open>
  The worker is JavaScript. A value is one of the shapes below; an object is the list of
  its own properties in insertion order. Numbers are exact rationals: every number the
  worker computes with (a day count of at most 30, a day index, an attempt number, a delay
  in milliseconds) is an integer far below \<open>2 ^ 53\<close>, where doubles are exact.
  A \<open>Date\<close> is represented by the text its \<open>toISOString()\<close> method returns.
\<close>

datatype date = Date (toISOString: string)

datatype jsval =
    JUndefined
  | JNull
  | JBool bool
  | JNum rat
  | JNaN
  | JStr string
  | JDate date
  | JArr "jsval list"
  | JObj "(string \<times> jsval) list"

text \<open>Property access \<open>v.k\<close> on an object; a missing property reads as \<open>undefined\<close>.\<close>

definition getProp :: "jsval \<Rightarrow> string \<Rightarrow> jsval" where
  "getProp v k = (case v of
      JObj kvs \<Rightarrow> (case map_of kvs k of Some x \<Rightarrow> x | None \<Rightarrow> JUndefined)
    | _ \<Rightarrow> JUndefined)"

text \<open>The truthiness test of \<open>if (v)\<close>, \<open>!v\<close> and \<open>a && b\<close>.\<close>

fun truthy :: "jsval \<Rightarrow> bool" where
  "truthy JUndefined = False"
| "truthy JNull = False"
| "truthy (JBool b) = b"
| "truthy (JNum r) = (r \<noteq> 0)"
| "truthy JNaN = False"
| "truthy (JStr s) = (s \<noteq> [])"
| "truthy (JDate d) = True"
| "truthy (JArr xs) = True"
| "truthy (JObj kvs) = True"

definition isInteger :: "rat \<Rightarrow> bool" where
  "isInteger r = (of_int \<lfloor>r\<rfloor> = r)"

section \<open>Strings\<close>

text \<open>A string is a list of characters and its length is their number, as \<open>.length\<close>
  counts code units.

  White space as \<open>String.prototype.trim\<close> and the regular expression class \<open>\s\<close>
  see it, among the characters a \<open>char\<close> can hold: tab, line feed, vertical tab, form
  feed, carriage return, space and the no-break space.\<close>

definition isSpace :: "char \<Rightarrow> bool" where
  "isSpace c = (of_char c \<in> {9, 10, 11, 12, 13, 32, 160 :: nat})"

definition trimStart :: "string \<Rightarrow> string" where
  "trimStart s = dropWhile isSpace s"

definition trimEnd :: "string \<Rightarrow> string" where
  "trimEnd s = rev (dropWhile isSpace (rev s))"

definition trim :: "string \<Rightarrow> string" where
  "trim s = trimEnd (trimStart s)"

text \<open>\<open>s.includes(pat)\<close>: \<open>pat\<close> occurs in \<open>s\<close> as a contiguous run.\<close>

fun str_includes :: "string \<Rightarrow> string \<Rightarrow> bool" where
  "str_includes [] pat = (pat = [])"
| "str_includes (c # s) pat = (prefix pat (c # s) \<or> str_includes s pat)"

text \<open>Decimal rendering of an integer in plain digits. This is how a template literal and
  \<open>toString()\<close> print an integer of magnitude below \<open>10 ^ 21\<close>; from there on they
  switch to exponent notation (see \<open>numberText\<close> below). The store operations print with
  \<open>toString\<close>: what they print is a day count, which the handler has checked to lie
  between 1 and 30, and the day numbers of a validated itinerary, which are positions.\<close>

definition digitChar :: "nat \<Rightarrow> char" where
  "digitChar d = ''0123456789'' ! d"

fun showNat :: "nat \<Rightarrow> string" where
  "showNat n = (if n < 10 then [digitChar n] else showNat (n div 10) @ [digitChar (n mod 10)])"

declare showNat.simps [simp del]

definition toString :: "int \<Rightarrow> string" where
  "toString i = (if i < 0 then CHR ''-'' # showNat (nat (- i)) else showNat (nat i))"

text \<open>\<open>parseInt(s)\<close> without a radix: leading white space is skipped, a sign is read, a
  \<open>0x\<close> prefix selects base sixteen, and the longest run of digits is the value; with no
  digit the result is \<open>NaN\<close>.\<close>

definition digitVal :: "char \<Rightarrow> nat option" where
  "digitVal c = (let n = of_char c :: nat in
     if 48 \<le> n \<and> n \<le> 57 then Some (n - 48)
     else if 97 \<le> n \<and> n \<le> 102 then Some (n - 87)
     else if 65 \<le> n \<and> n \<le> 70 then Some (n - 55)
     else None)"

definition isDigitIn :: "nat \<Rightarrow> char \<Rightarrow> bool" where
  "isDigitIn radix c = (case digitVal c of Some d \<Rightarrow> d < radix | None \<Rightarrow> False)"

definition readDigits :: "nat \<Rightarrow> string \<Rightarrow> nat option" where
  "readDigits radix s = (let ds = takeWhile (isDigitIn radix) s in
     if ds = [] then None
     else Some (foldl (\<lambda>acc c. acc * radix + the (digitVal c)) 0 ds))"

definition readUnsigned :: "string \<Rightarrow> nat option" where
  "readUnsigned s = (case s of
      c1 # c2 # rest \<Rightarrow>
        (if c1 = CHR ''0'' \<and> (c2 = CHR ''x'' \<or> c2 = CHR ''X'') then readDigits 16 rest
         else readDigits 10 s)
    | _ \<Rightarrow> readDigits 10 s)"

definition parseInt :: "string \<Rightarrow> jsval" where
  "parseInt s = (let t = trimStart s in
     case t of
       [] \<Rightarrow> JNaN
     | c # rest \<Rightarrow>
        (if c = CHR ''-'' then (case readUnsigned rest of None \<Rightarrow> JNaN | Some n \<Rightarrow> JNum (- of_nat n))
         else if c = CHR ''+'' then (case readUnsigned rest of None \<Rightarrow> JNaN | Some n \<Rightarrow> JNum (of_nat n))
         else (case readUnsigned t of None \<Rightarrow> JNaN | Some n \<Rightarrow> JNum (of_nat n))))"

section \<open>Retry configuration and back-off\<close>

text \<open>\<open>RETRY_CONFIG\<close>; delays are in milliseconds. Attempt numbers are positive: every
  retrying function starts at attempt 1 and only counts up, so \<open>calculateDelay\<close> is never
  called with 0.\<close>

definition maxRetries :: nat where "maxRetries = 3"
definition baseDelay :: nat where "baseDelay = 1000"
definition maxDelay :: nat where "maxDelay = 30000"
definition backoffFactor :: nat where "backoffFactor = 2"

definition calculateDelay :: "nat \<Rightarrow> nat" where
  "calculateDelay attempt =
     (let delay = baseDelay * backoffFactor ^ (attempt - 1) in min delay maxDelay)"

section \<open>The world outside the worker\<close>

text \<open>
  Everything the worker does to the outside is recorded, in order, in a log: each suspension
  (\<open>sleep(ms)\<close>), each document write the store has applied (the document identifier and
  the document as it stands after the write), and each background task handed to
  \<open>ctx.waitUntil\<close>. The document store is read off the log: the current document of an
  identifier is the one written last.

  Stored documents are in the store's typed-value wire format.
\<close>

datatype fsval =
    StringValue string
  | IntegerValue string
  | TimestampValue string
  | NullValue
  | BooleanValue bool
  | DoubleValue rat
  | ArrayValue "fsval list"
  | MapValue "(string \<times> fsval) list"

type_synonym fields = "(string \<times> fsval) list"

record task =
  taskJobId :: string
  taskDestination :: string
  taskDurationDays :: int
  taskServiceAccountKey :: string
  taskOpenaiApiKey :: string

datatype event =
    Sleep nat
  | Write string fields
  | Schedule task

type_synonym world = "event list"

text \<open>
  What one outbound call (\<open>fetch\<close> and the reading of the response) comes to, as the
  code sees it. \<open>Rejected m\<close>: \<open>fetch\<close> itself throws an error with message \<open>m\<close>; no
  response arrives. \<open>Refused status text\<close>: a response whose \<open>ok\<close> flag is false
  arrives, with its status code and body text. \<open>Unreadable m\<close>: a response whose \<open>ok\<close>
  flag is true arrives, but reading what the code wants from its body throws an error with
  message \<open>m\<close> (\<open>response.json()\<close> fails, or the JSON lacks the part the code reads).
  \<open>Accepted v\<close>: a response whose \<open>ok\<close> flag is true arrives and \<open>v\<close> is what the
  code reads from its JSON body.

  The store has applied a write exactly when its response has the \<open>ok\<close> flag, whether or
  not the worker can then read the body.

  A function that retries receives the answers to its attempts as a function of the
  attempt number.
\<close>

datatype 'a reply = Rejected string | Refused nat string | Unreadable string | Accepted 'a

definition applied :: "'a reply \<Rightarrow> bool" where
  "applied r = (case r of Accepted v \<Rightarrow> True | Unreadable m \<Rightarrow> True | _ \<Rightarrow> False)"

text \<open>The parts of the host platform whose results the worker only passes on:
  \<open>JSON.parse\<close> (\<open>Inl\<close> carries the message of the syntax error) and the signing of the
  token assertion, \<open>createJWT\<close>, which is string encoding around WebCrypto calls
  (\<open>Inl\<close> carries the message of whatever it throws); the wording of the two type
  errors the worker can run into, reading a named property of \<open>null\<close> and destructuring
  \<open>null\<close>; and the exponent notation in which an integer of magnitude \<open>10 ^ 21\<close> or more
  is printed.\<close>

record host =
  JSON_parse :: "string \<Rightarrow> string + jsval"
  createJWT :: "jsval \<Rightarrow> string + string"
  nullReadError :: "string \<Rightarrow> string"
  nullDestructureError :: string
  largeNumberText :: "int \<Rightarrow> string"

text \<open>An integer as a template literal prints it.\<close>

definition numberText :: "host \<Rightarrow> int \<Rightarrow> string" where
  "numberText h i = (if \<bar>i\<bar> < 10 ^ 21 then toString i else largeNumberText h i)"

section \<open>Token acquisition\<close>

text \<open>One pass through the \<open>try\<close> block of \<open>getAccessToken\<close>.\<close>

definition tokenAttempt :: "host \<Rightarrow> string \<Rightarrow> jsval reply \<Rightarrow> string + jsval" where
  "tokenAttempt h serviceAccountKey r =
     (case JSON_parse h serviceAccountKey of
        Inl m \<Rightarrow> Inl m
      | Inr serviceAccount \<Rightarrow>
         (case createJWT h serviceAccount of
            Inl m \<Rightarrow> Inl m
          | Inr jwt \<Rightarrow>
             (case r of
                Rejected m \<Rightarrow> Inl m
              | Refused status errorText \<Rightarrow>
                  Inl (''Token exchange failed: '' @ showNat status @ '' - '' @ errorText)
              | Unreadable m \<Rightarrow> Inl m
              | Accepted access_token \<Rightarrow> Inr access_token)))"

function getAccessToken ::
  "host \<Rightarrow> string \<Rightarrow> (nat \<Rightarrow> jsval reply) \<Rightarrow> nat \<Rightarrow> world \<Rightarrow> (string + jsval) \<times> world" where
  "getAccessToken h serviceAccountKey net attempt w =
     (case tokenAttempt h serviceAccountKey (net attempt) of
        Inr access_token \<Rightarrow> (Inr access_token, w)
      | Inl message \<Rightarrow>
         (if attempt \<le> maxRetries then
            (let delay = calculateDelay attempt in
             getAccessToken h serviceAccountKey net (attempt + 1) (w @ [Sleep delay]))
          else
            (Inl (''Failed to get access token after '' @ showNat (maxRetries + 1)
                  @ '' attempts: '' @ message), w)))"
  by pat_completeness auto
termination
  by (relation "measure (\<lambda>(h, k, net, attempt, w). maxRetries + 1 - attempt)") auto

declare getAccessToken.simps [simp del]

text \<open>The suspensions recorded in a log, and their total.\<close>

fun sleeps :: "world \<Rightarrow> nat list" where
  "sleeps [] = []"
| "sleeps (Sleep ms # w) = ms # sleeps w"
| "sleeps (e # w) = sleeps w"

text \<open>The write events of a log, oldest first, and the store they amount to.\<close>

fun writes :: "world \<Rightarrow> (string \<times> fields) list" where
  "writes [] = []"
| "writes (Write docId doc # w) = (docId, doc) # writes w"
| "writes (e # w) = writes w"

definition lookupDoc :: "world \<Rightarrow> string \<Rightarrow> fields option" where
  "lookupDoc w docId = map_of (rev (writes w)) docId"

section \<open>Document store operations\<close>

record activity =
  time :: string
  description :: string
  location :: string

record dayPlan =
  day :: int
  theme :: string
  activities :: "activity list"

text \<open>The object handed to \<open>createFirestoreDocument\<close>, with the keys \<open>status\<close>,
  \<open>destination\<close>, \<open>durationDays\<close>, \<open>createdAt\<close>, \<open>completedAt\<close>, \<open>itinerary\<close> and
  \<open>error\<close>.\<close>

record docData =
  dataStatus :: string
  dataDestination :: string
  dataDurationDays :: int
  dataCreatedAt :: date
  dataCompletedAt :: "date option"
  dataItinerary :: "dayPlan list option"
  dataError :: "string option"

text \<open>The object handed to \<open>updateFirestoreDocument\<close>: it has the keys \<open>status\<close>,
  \<open>itinerary\<close>, \<open>completedAt\<close> and \<open>error\<close>.\<close>

record patchData =
  patchStatus :: string
  patchItinerary :: "dayPlan list option"
  patchCompletedAt :: date
  patchError :: "string option"

text \<open>The \<open>firestoreData\<close> object built by \<open>createFirestoreDocument\<close>.\<close>

definition createFirestoreData :: "docData \<Rightarrow> fields" where
  "createFirestoreData data =
     [(''status'', StringValue (dataStatus data)),
      (''destination'', StringValue (dataDestination data)),
      (''durationDays'', IntegerValue (toString (dataDurationDays data))),
      (''createdAt'', TimestampValue (toISOString (dataCreatedAt data))),
      (''completedAt'', NullValue),
      (''itinerary'', NullValue),
      (''error'', NullValue)]"

text \<open>Whether an error message names one of the server errors the store operations
  retry on.\<close>

definition storeRetryable :: "string \<Rightarrow> bool" where
  "storeRetryable message =
     (str_includes message ''500'' \<or> str_includes message ''502'' \<or> str_includes message ''503'')"

text \<open>
  The store operations take, in the source, also the project identifier, the access token
  and the collection name (always \<open>'itineraries'\<close>). These only shape the request, whose
  answer is given by the network, and are left out.
\<close>

text \<open>The store refuses to create a document under an identifier that already has one:
  where the network would deliver the answer to an applied write, the answer is then a
  response of status 409.\<close>

definition createAnswer :: "world \<Rightarrow> string \<Rightarrow> jsval reply \<Rightarrow> jsval reply" where
  "createAnswer w docId r =
     (if applied r \<and> lookupDoc w docId \<noteq> None then Refused 409 ''ALREADY_EXISTS'' else r)"

text \<open>The log once an answer has arrived: the write is in it when the store applied it.\<close>

definition afterAnswer :: "'a reply \<Rightarrow> world \<Rightarrow> string \<Rightarrow> fields \<Rightarrow> world" where
  "afterAnswer r w docId doc = (if applied r then w @ [Write docId doc] else w)"

text \<open>One pass through the \<open>try\<close> block of \<open>createFirestoreDocument\<close>: the response is
  tested for \<open>ok\<close> first and its body is read with \<open>response.json()\<close> afterwards.\<close>

definition createAttempt :: "jsval reply \<Rightarrow> string + jsval" where
  "createAttempt r = (case r of
      Rejected m \<Rightarrow> Inl m
    | Refused st errorText \<Rightarrow> Inl (''Firestore create failed: '' @ showNat st @ '' - '' @ errorText)
    | Unreadable m \<Rightarrow> Inl m
    | Accepted v \<Rightarrow> Inr v)"

function createFirestoreDocument ::
  "string \<Rightarrow> docData \<Rightarrow> (nat \<Rightarrow> jsval reply) \<Rightarrow> nat \<Rightarrow> world \<Rightarrow> (string + jsval) \<times> world" where
  "createFirestoreDocument docId data net attempt w =
     (case createAttempt (createAnswer w docId (net attempt)) of
        Inr v \<Rightarrow> (Inr v, w @ [Write docId (createFirestoreData data)])
      | Inl message \<Rightarrow>
         (if attempt \<le> maxRetries \<and> storeRetryable message then
            (let delay = calculateDelay attempt in
             createFirestoreDocument docId data net (attempt + 1)
               (afterAnswer (createAnswer w docId (net attempt)) w docId (createFirestoreData data)
                @ [Sleep delay]))
          else
            (Inl message,
             afterAnswer (createAnswer w docId (net attempt)) w docId (createFirestoreData data))))"
  by pat_completeness auto
termination
  by (relation "measure (\<lambda>(docId, data, net, attempt, w). maxRetries + 1 - attempt)") auto

declare createFirestoreDocument.simps [simp del]

text \<open>Assignment \<open>obj[k] = v\<close> to a property of an object literal.\<close>

definition setField :: "('k \<times> 'v) list \<Rightarrow> 'k \<Rightarrow> 'v \<Rightarrow> ('k \<times> 'v) list" where
  "setField kvs k v =
     (if k \<in> set (map fst kvs) then map (\<lambda>(k', v'). if k' = k then (k', v) else (k', v')) kvs
      else kvs @ [(k, v)])"

definition activityValue :: "activity \<Rightarrow> fsval" where
  "activityValue a = MapValue
     [(''time'', StringValue (time a)),
      (''description'', StringValue (description a)),
      (''location'', StringValue (location a))]"

definition dayValue :: "dayPlan \<Rightarrow> fsval" where
  "dayValue d = MapValue
     [(''day'', IntegerValue (toString (day d))),
      (''theme'', StringValue (theme d)),
      (''activities'', ArrayValue (map activityValue (activities d)))]"

text \<open>The \<open>firestoreData\<close> object built by \<open>updateFirestoreDocument\<close>. An array is
  truthy even when empty; a string is truthy unless empty.\<close>

definition updateFirestoreData :: "patchData \<Rightarrow> fields" where
  "updateFirestoreData data =
     (let firestoreData =
            [(''status'', StringValue (patchStatus data)),
             (''completedAt'', TimestampValue (toISOString (patchCompletedAt data)))];
          firestoreData =
            (case patchItinerary data of
               Some days \<Rightarrow>
                 setField (setField firestoreData ''itinerary'' (ArrayValue (map dayValue days)))
                   ''error'' NullValue
             | None \<Rightarrow> firestoreData);
          firestoreData =
            (case patchError data of
               Some e \<Rightarrow>
                 (if e \<noteq> [] then
                    setField (setField firestoreData ''error'' (StringValue e)) ''itinerary'' NullValue
                  else firestoreData)
             | None \<Rightarrow> firestoreData)
      in firestoreData)"

text \<open>A partial update as the store applies it: the fields of the patch replace the fields
  of the same name, every other field of the document stays.\<close>

definition mergeFields :: "fields \<Rightarrow> fields \<Rightarrow> fields" where
  "mergeFields old patch = filter (\<lambda>(k, v). k \<notin> set (map fst patch)) old @ patch"

definition patchedDoc :: "world \<Rightarrow> string \<Rightarrow> fields \<Rightarrow> fields" where
  "patchedDoc w docId patch =
     mergeFields (case lookupDoc w docId of Some old \<Rightarrow> old | None \<Rightarrow> []) patch"

text \<open>One pass through the \<open>try\<close> block of \<open>updateFirestoreDocument\<close>: as for the
  creation, the body is read after the \<open>ok\<close> test, so an error can reach the caller of a
  write the store has applied.\<close>

definition updateAttempt :: "jsval reply \<Rightarrow> string + jsval" where
  "updateAttempt r = (case r of
      Rejected m \<Rightarrow> Inl m
    | Refused st errorText \<Rightarrow> Inl (''Firestore update failed: '' @ showNat st @ '' - '' @ errorText)
    | Unreadable m \<Rightarrow> Inl m
    | Accepted v \<Rightarrow> Inr v)"

function updateFirestoreDocument ::
  "string \<Rightarrow> patchData \<Rightarrow> (nat \<Rightarrow> jsval reply) \<Rightarrow> nat \<Rightarrow> world \<Rightarrow> (string + jsval) \<times> world" where
  "updateFirestoreDocument docId data net attempt w =
     (case updateAttempt (net attempt) of
        Inr v \<Rightarrow> (Inr v, w @ [Write docId (patchedDoc w docId (updateFirestoreData data))])
      | Inl message \<Rightarrow>
         (if attempt \<le> maxRetries \<and> storeRetryable message then
            (let delay = calculateDelay attempt in
             updateFirestoreDocument docId data net (attempt + 1)
               (afterAnswer (net attempt) w docId (patchedDoc w docId (updateFirestoreData data))
                @ [Sleep delay]))
          else
            (Inl message,
             afterAnswer (net attempt) w docId (patchedDoc w docId (updateFirestoreData data)))))"
  by pat_completeness auto
termination
  by (relation "measure (\<lambda>(docId, data, net, attempt, w). maxRetries + 1 - attempt)") auto

declare updateFirestoreDocument.simps [simp del]

section \<open>Itinerary validation\<close>

text \<open>
  The schemas are built with the Zod library (version 3). Parsing a value against a schema
  gives either the parsed value or the list of issues found, each with the path to the
  offending value and a message. Issues are collected in the order Zod finds them: the
  checks of a value in the order they were attached, the properties of an object in the
  order of the schema, the elements of an array in order. Properties the schema does not
  name are dropped from the parsed value. The messages of type mismatches are Zod's own.
\<close>

type_synonym issue = "string list \<times> string"

definition typeName :: "jsval \<Rightarrow> string" where
  "typeName v = (case v of
      JUndefined \<Rightarrow> ''undefined''
    | JNull \<Rightarrow> ''null''
    | JBool b \<Rightarrow> ''boolean''
    | JNum r \<Rightarrow> ''number''
    | JNaN \<Rightarrow> ''nan''
    | JStr s \<Rightarrow> ''string''
    | JDate d \<Rightarrow> ''date''
    | JArr xs \<Rightarrow> ''array''
    | JObj kvs \<Rightarrow> ''object'')"

definition invalidType :: "string \<Rightarrow> jsval \<Rightarrow> string" where
  "invalidType expected v =
     (if v = JUndefined then ''Required''
      else ''Expected '' @ expected @ '', received '' @ typeName v)"

definition issuesOf :: "issue list + 'a \<Rightarrow> issue list" where
  "issuesOf r = (case r of Inl is \<Rightarrow> is | Inr v \<Rightarrow> [])"

definition valuesOf :: "(issue list + 'a) list \<Rightarrow> 'a list" where
  "valuesOf rs = concat (map (\<lambda>r. case r of Inl is \<Rightarrow> [] | Inr v \<Rightarrow> [v]) rs)"

text \<open>\<open>z.string().min(n, message)\<close>\<close>

definition zString :: "nat \<Rightarrow> string \<Rightarrow> string list \<Rightarrow> jsval \<Rightarrow> issue list + string" where
  "zString n message path v = (case v of
      JStr s \<Rightarrow> (if length s < n then Inl [(path, message)] else Inr s)
    | _ \<Rightarrow> Inl [(path, invalidType ''string'' v)])"

text \<open>\<open>z.number().int().positive(message)\<close>\<close>

definition zPositiveInt :: "string \<Rightarrow> string list \<Rightarrow> jsval \<Rightarrow> issue list + int" where
  "zPositiveInt message path v = (case v of
      JNum r \<Rightarrow>
        (let found =
           (if \<not> isInteger r then [(path, ''Expected integer, received float'')] else [])
           @ (if r \<le> 0 then [(path, message)] else [])
         in if found = [] then Inr \<lfloor>r\<rfloor> else Inl found)
    | _ \<Rightarrow> Inl [(path, invalidType ''number'' v)])"

text \<open>\<open>z.array(item).min(n, message)\<close>\<close>

definition zArray ::
  "(string list \<Rightarrow> jsval \<Rightarrow> issue list + 'a) \<Rightarrow> nat \<Rightarrow> string \<Rightarrow> string list \<Rightarrow> jsval
     \<Rightarrow> issue list + 'a list" where
  "zArray item n message path v = (case v of
      JArr xs \<Rightarrow>
        (let rs = map (\<lambda>(i, x). item (path @ [showNat i]) x) (enumerate 0 xs);
             found = (if length xs < n then [(path, message)] else [])
                     @ concat (map issuesOf rs)
         in if found = [] then Inr (valuesOf rs) else Inl found)
    | _ \<Rightarrow> Inl [(path, invalidType ''array'' v)])"

definition ActivitySchema :: "string list \<Rightarrow> jsval \<Rightarrow> issue list + activity" where
  "ActivitySchema path v = (case v of
      JObj kvs \<Rightarrow>
        (let t = zString 1 ''Time is required'' (path @ [''time'']) (getProp v ''time'');
             d = zString 10 ''Description must be at least 10 characters''
                   (path @ [''description'']) (getProp v ''description'');
             l = zString 1 ''Location is required'' (path @ [''location'']) (getProp v ''location'')
         in case (t, d, l) of
              (Inr t', Inr d', Inr l') \<Rightarrow> Inr \<lparr>time = t', description = d', location = l'\<rparr>
            | _ \<Rightarrow> Inl (issuesOf t @ issuesOf d @ issuesOf l))
    | _ \<Rightarrow> Inl [(path, invalidType ''object'' v)])"

definition DaySchema :: "string list \<Rightarrow> jsval \<Rightarrow> issue list + dayPlan" where
  "DaySchema path v = (case v of
      JObj kvs \<Rightarrow>
        (let n = zPositiveInt ''Day must be a positive integer'' (path @ [''day'']) (getProp v ''day'');
             t = zString 1 ''Theme is required'' (path @ [''theme'']) (getProp v ''theme'');
             a = zArray ActivitySchema 1 ''At least one activity is required per day''
                   (path @ [''activities'']) (getProp v ''activities'')
         in case (n, t, a) of
              (Inr n', Inr t', Inr a') \<Rightarrow> Inr \<lparr>day = n', theme = t', activities = a'\<rparr>
            | _ \<Rightarrow> Inl (issuesOf n @ issuesOf t @ issuesOf a))
    | _ \<Rightarrow> Inl [(path, invalidType ''object'' v)])"

definition ItinerarySchema :: "jsval \<Rightarrow> issue list + dayPlan list" where
  "ItinerarySchema v = zArray DaySchema 1 ''Itinerary must have at least one day'' [] v"

text \<open>\<open>xs.join(sep)\<close>\<close>

fun joinWith :: "string \<Rightarrow> string list \<Rightarrow> string" where
  "joinWith sep [] = []"
| "joinWith sep [x] = x"
| "joinWith sep (x # y # ys) = x @ sep @ joinWith sep (y # ys)"

text \<open>The loop over the validated days: the first day whose number is not its position
  plus one raises the day-sequence error.\<close>

fun checkDaySequence :: "host \<Rightarrow> dayPlan list \<Rightarrow> nat \<Rightarrow> string option" where
  "checkDaySequence h [] i = None"
| "checkDaySequence h (d # ds) i =
     (if day d \<noteq> int i + 1 then
        Some (''Day sequence error: expected day '' @ showNat (i + 1) @ '', got day ''
              @ numberText h (day d))
      else checkDaySequence h ds (i + 1))"

text \<open>The validation step of \<open>generateItinerary\<close>: the schema, then the day count, then
  the day sequence. \<open>Inl\<close> carries the message of the error thrown. The host is needed
  only to print numbers into the messages.\<close>

definition validateItinerary :: "host \<Rightarrow> jsval \<Rightarrow> int \<Rightarrow> string + dayPlan list" where
  "validateItinerary h parsed durationDays =
     (case ItinerarySchema parsed of
        Inl errors \<Rightarrow>
          Inl (''Validation failed: ''
               @ joinWith ''; '' (map (\<lambda>(path, message). joinWith ''.'' path @ '': '' @ message) errors))
      | Inr validatedItinerary \<Rightarrow>
          (if int (length validatedItinerary) \<noteq> durationDays then
             Inl (''Expected '' @ numberText h durationDays @ '' days, got ''
                  @ showNat (length validatedItinerary) @ '' days'')
           else (case checkDaySequence h validatedItinerary 0 of
                   Some message \<Rightarrow> Inl message
                 | None \<Rightarrow> Inr validatedItinerary)))"

section \<open>Text generation\<close>

definition toLower :: "char \<Rightarrow> char" where
  "toLower c = (let n = of_char c :: nat in if 65 \<le> n \<and> n \<le> 90 then char_of (n + 32) else c)"

text \<open>Removal of a leading marker, matched without regard to case, and of the white space
  after it: \<open>replace(/^marker\s*/i, '')\<close>.\<close>

definition stripLeading :: "string \<Rightarrow> string \<Rightarrow> string" where
  "stripLeading marker s =
     (if map toLower (take (length marker) s) = marker
      then dropWhile isSpace (drop (length marker) s) else s)"

text \<open>Removal of a closing fence at the very end and of the white space before it:
  \<open>replace(/\s*```$/i, '')\<close>.\<close>

definition stripTrailingFence :: "string \<Rightarrow> string" where
  "stripTrailingFence s =
     (if suffix [CHR 0x60, CHR 0x60, CHR 0x60] s
      then rev (dropWhile isSpace (drop 3 (rev s))) else s)"

fun indexOf :: "char \<Rightarrow> string \<Rightarrow> nat option" where
  "indexOf c [] = None"
| "indexOf c (x # xs) = (if x = c then Some 0 else map_option Suc (indexOf c xs))"

definition lastIndexOf :: "char \<Rightarrow> string \<Rightarrow> nat option" where
  "lastIndexOf c s = map_option (\<lambda>i. length s - 1 - i) (indexOf c (rev s))"

definition cleanOpenAIResponse :: "string \<Rightarrow> string" where
  "cleanOpenAIResponse content =
     (let cleaned = trim content;
          cleaned = stripLeading [CHR 0x60, CHR 0x60, CHR 0x60, CHR ''j'', CHR ''s'', CHR ''o'', CHR ''n''] cleaned;
          cleaned = stripLeading [CHR 0x60, CHR 0x60, CHR 0x60] cleaned;
          cleaned = stripTrailingFence cleaned;
          cleaned =
            (case (indexOf CHR ''['' cleaned, lastIndexOf CHR '']'' cleaned) of
               (Some startIndex, Some endIndex) \<Rightarrow>
                 (if endIndex > startIndex
                  then take (endIndex + 1 - startIndex) (drop startIndex cleaned) else cleaned)
             | _ \<Rightarrow> cleaned)
      in trim cleaned)"

text \<open>One pass through the \<open>try\<close> block of \<open>generateItinerary\<close>. The prompt built from
  the destination and the day count only shapes the request. An accepted answer carries
  the text of the first choice's message.\<close>

definition generateAttempt :: "host \<Rightarrow> int \<Rightarrow> string reply \<Rightarrow> string + dayPlan list" where
  "generateAttempt h durationDays r = (case r of
      Rejected m \<Rightarrow> Inl m
    | Refused st errorText \<Rightarrow>
        (if st = 429 then Inl (''Rate limited by OpenAI API: '' @ errorText)
         else if st \<ge> 500 then Inl (''OpenAI server error: '' @ showNat st @ '' - '' @ errorText)
         else Inl (''OpenAI API error: '' @ showNat st @ '' - '' @ errorText))
    | Unreadable m \<Rightarrow> Inl m
    | Accepted raw \<Rightarrow>
        (let content = trim raw;
             content = cleanOpenAIResponse content
         in case JSON_parse h content of
              Inl parseError \<Rightarrow>
                Inl (''JSON parsing failed: '' @ parseError @ ''. Content: '' @ take 500 content)
            | Inr parsed \<Rightarrow> validateItinerary h parsed durationDays))"

definition isRetryableError :: "string \<Rightarrow> bool" where
  "isRetryableError message =
     (str_includes message ''Rate limited'' \<or>
      str_includes message ''server error'' \<or>
      str_includes message ''500'' \<or>
      str_includes message ''502'' \<or>
      str_includes message ''503'' \<or>
      str_includes message ''timeout'')"

function generateItinerary ::
  "host \<Rightarrow> int \<Rightarrow> (nat \<Rightarrow> string reply) \<Rightarrow> nat \<Rightarrow> world \<Rightarrow> (string + dayPlan list) \<times> world" where
  "generateItinerary h durationDays net attempt w =
     (case generateAttempt h durationDays (net attempt) of
        Inr validatedItinerary \<Rightarrow> (Inr validatedItinerary, w)
      | Inl message \<Rightarrow>
         (if attempt \<le> maxRetries \<and> isRetryableError message then
            (let delay = calculateDelay attempt in
             generateItinerary h durationDays net (attempt + 1) (w @ [Sleep delay]))
          else
            (Inl (''Failed to generate itinerary after '' @ showNat attempt @ '' attempts: ''
                  @ message), w)))"
  by pat_completeness auto
termination
  by (relation "measure (\<lambda>(h, durationDays, net, attempt, w). maxRetries + 1 - attempt)") auto

declare generateItinerary.simps [simp del]

section \<open>Background generation\<close>

text \<open>The answers of the network to one run of \<open>processItineraryGeneration\<close>, call by
  call, and the clock readings of its two \<open>new Date()\<close>.\<close>

record jobNet =
  tokenNet :: "nat \<Rightarrow> jsval reply"
  openaiNet :: "nat \<Rightarrow> string reply"
  completedNet :: "nat \<Rightarrow> jsval reply"
  completedNow :: date
  retokenNet :: "nat \<Rightarrow> jsval reply"
  failedNet :: "nat \<Rightarrow> jsval reply"
  failedNow :: date

text \<open>The \<open>catch\<close> block of \<open>processItineraryGeneration\<close>, entered with the message of the
  error caught and the values the three local variables have at that moment. An error
  thrown inside it is caught and only logged to the console.\<close>

definition reportFailure ::
  "host \<Rightarrow> jobNet \<Rightarrow> string \<Rightarrow> string \<Rightarrow> string \<Rightarrow> jsval \<Rightarrow> jsval \<Rightarrow> jsval \<Rightarrow> world \<Rightarrow> world" where
  "reportFailure h n jobId serviceAccountKey message accessToken serviceAccount projectId w =
     (case (if \<not> truthy accessToken \<and> truthy serviceAccount
            then getAccessToken h serviceAccountKey (retokenNet n) 1 w
            else (Inr accessToken, w)) of
        (Inl updateError, w1) \<Rightarrow> w1
      | (Inr accessToken', w1) \<Rightarrow>
          (if truthy accessToken' \<and> truthy projectId then
             snd (updateFirestoreDocument jobId
                    \<lparr>patchStatus = ''failed'',
                     patchItinerary = None,
                     patchCompletedAt = failedNow n,
                     patchError = Some (''Generation failed: '' @ message)\<rparr>
                    (failedNet n) 1 w1)
           else w1))"

definition processItineraryGeneration ::
  "host \<Rightarrow> jobNet \<Rightarrow> string \<Rightarrow> string \<Rightarrow> int \<Rightarrow> string \<Rightarrow> string \<Rightarrow> world \<Rightarrow> world" where
  "processItineraryGeneration h n jobId destination durationDays serviceAccountKey openaiApiKey w =
     (case JSON_parse h serviceAccountKey of
        Inl m \<Rightarrow> reportFailure h n jobId serviceAccountKey m JNull JNull JNull w
      | Inr serviceAccount \<Rightarrow>
         (if serviceAccount = JNull then
            reportFailure h n jobId serviceAccountKey (nullReadError h ''project_id'')
              JNull serviceAccount JNull w
          else
            (let projectId = getProp serviceAccount ''project_id'' in
             case getAccessToken h serviceAccountKey (tokenNet n) 1 w of
               (Inl m, w1) \<Rightarrow>
                 reportFailure h n jobId serviceAccountKey m JNull serviceAccount projectId w1
             | (Inr accessToken, w1) \<Rightarrow>
                (case generateItinerary h durationDays (openaiNet n) 1 w1 of
                   (Inl m, w2) \<Rightarrow>
                     reportFailure h n jobId serviceAccountKey m accessToken serviceAccount projectId w2
                 | (Inr validated, w2) \<Rightarrow>
                    (case updateFirestoreDocument jobId
                            \<lparr>patchStatus = ''completed'',
                             patchItinerary = Some validated,
                             patchCompletedAt = completedNow n,
                             patchError = None\<rparr>
                            (completedNet n) 1 w2 of
                       (Inl m, w3) \<Rightarrow>
                         reportFailure h n jobId serviceAccountKey m accessToken serviceAccount
                           projectId w3
                     | (Inr v, w3) \<Rightarrow> w3)))))"

section \<open>Reading documents back\<close>

text \<open>\<open>convertFromFirestoreFormat\<close> tests each typed value for the kinds it knows, in
  the order below; a value of another kind sets no property. \<open>convertValue\<close> is the body
  of its loop for one value: \<open>None\<close> when no branch applies.\<close>

fun convertValue :: "fsval \<Rightarrow> jsval option"
  and convertFromFirestoreFormat :: "fields \<Rightarrow> (string \<times> jsval) list"
  and convertItems :: "fsval list \<Rightarrow> jsval list" where
  "convertValue (StringValue s) = Some (JStr s)"
| "convertValue (IntegerValue s) = Some (parseInt s)"
| "convertValue (TimestampValue s) = Some (JStr s)"
| "convertValue NullValue = Some JNull"
| "convertValue (ArrayValue values) = Some (JArr (convertItems values))"
| "convertValue (MapValue fs) = Some (JObj (convertFromFirestoreFormat fs))"
| "convertValue (BooleanValue b) = None"
| "convertValue (DoubleValue r) = None"
| "convertFromFirestoreFormat [] = []"
| "convertFromFirestoreFormat ((key, v) # rest) =
     (case convertValue v of
        Some x \<Rightarrow> (key, x) # convertFromFirestoreFormat rest
      | None \<Rightarrow> convertFromFirestoreFormat rest)"
| "convertItems [] = []"
| "convertItems (item # items) =
     (case item of
        MapValue fs \<Rightarrow> JObj (convertFromFirestoreFormat fs)
      | _ \<Rightarrow> (case convertValue item of Some x \<Rightarrow> x | None \<Rightarrow> JUndefined))
     # convertItems items"

section \<open>The request handler\<close>

record request =
  reqMethod :: string
  jobIdParam :: "string option"
  pathname :: string
  reqBody :: string

record bindings =
  FIREBASE_SERVICE_ACCOUNT_KEY :: "string option"
  OPENAI_API_KEY :: "string option"

record response =
  statusCode :: nat
  payload :: jsval

text \<open>How the store answers a read. \<open>Up\<close>: the store answers from its documents, with
  the document or with status 404 when there is none. \<open>Down m\<close>: the call throws.
  \<open>Erring status text\<close>: a response with that status arrives instead. \<open>Garbled m\<close>:
  an \<open>ok\<close> response arrives whose body cannot be read.\<close>

datatype link = Up | Down string | Erring nat string | Garbled string

definition readDoc :: "link \<Rightarrow> world \<Rightarrow> string \<Rightarrow> fields reply" where
  "readDoc l w docId = (case l of
      Down m \<Rightarrow> Rejected m
    | Erring st errorText \<Rightarrow> Refused st errorText
    | Garbled m \<Rightarrow> Unreadable m
    | Up \<Rightarrow> (case lookupDoc w docId of
               Some doc \<Rightarrow> Accepted doc
             | None \<Rightarrow> Refused 404 ''NOT_FOUND''))"

text \<open>The answers of the network to one request, the identifier \<open>generateUUID\<close> draws
  and the clock reading of \<open>new Date()\<close>.\<close>

record fetchNet =
  statusTokenNet :: "nat \<Rightarrow> jsval reply"
  statusLink :: link
  submitTokenNet :: "nat \<Rightarrow> jsval reply"
  createNet :: "nat \<Rightarrow> jsval reply"
  uuid :: string
  now :: date

definition configured :: "string option \<Rightarrow> bool" where
  "configured v = (case v of Some s \<Rightarrow> s \<noteq> [] | None \<Rightarrow> False)"

definition lastSegment :: "string \<Rightarrow> string" where
  "lastSegment p = rev (takeWhile (\<lambda>c. c \<noteq> CHR ''/'') (rev p))"

definition statusError :: "string \<Rightarrow> response" where
  "statusError details =
     \<lparr>statusCode = 500,
      payload = JObj [(''error'', JStr ''Failed to check status''), (''details'', JStr details)]\<rparr>"

definition internalError :: "string \<Rightarrow> response" where
  "internalError details =
     \<lparr>statusCode = 500,
      payload = JObj [(''error'', JStr ''Internal server error''),
                      (''message'', JStr ''Failed to process request with enhanced error handling''),
                      (''details'', JStr details)]\<rparr>"

definition badRequest :: "string \<Rightarrow> response" where
  "badRequest message = \<lparr>statusCode = 400, payload = JObj [(''error'', JStr message)]\<rparr>"

text \<open>The job identifier of a status check:
  \<open>url.searchParams.get('jobId') || url.pathname.split('/').pop()\<close>.\<close>

definition requestedJobId :: "request \<Rightarrow> string" where
  "requestedJobId request =
     (case jobIdParam request of
        Some s \<Rightarrow> (if s \<noteq> [] then s else lastSegment (pathname request))
      | None \<Rightarrow> lastSegment (pathname request))"

text \<open>The \<open>GET\<close> branch: the status check.\<close>

definition handleGet :: "host \<Rightarrow> bindings \<Rightarrow> fetchNet \<Rightarrow> request \<Rightarrow> world \<Rightarrow> response \<times> world" where
  "handleGet h env n request w =
     (let jobId = requestedJobId request
      in if jobId = [] \<or> jobId = ''/'' then
           (\<lparr>statusCode = 400,
             payload = JObj [(''error'', JStr ''jobId is required''),
                             (''usage'', JStr ''GET /?jobId=YOUR_JOB_ID'')]\<rparr>, w)
         else if \<not> configured (FIREBASE_SERVICE_ACCOUNT_KEY env) then
           (statusError ''FIREBASE_SERVICE_ACCOUNT_KEY not configured'', w)
         else
           (let key = the (FIREBASE_SERVICE_ACCOUNT_KEY env) in
            case JSON_parse h key of
              Inl m \<Rightarrow> (statusError m, w)
            | Inr serviceAccount \<Rightarrow>
               (case getAccessToken h key (statusTokenNet n) 1 w of
                  (Inl m, w1) \<Rightarrow> (statusError m, w1)
                | (Inr accessToken, w1) \<Rightarrow>
                   (if serviceAccount = JNull then (statusError (nullReadError h ''project_id''), w1)
                    else
                      (case readDoc (statusLink n) w1 jobId of
                         Rejected m \<Rightarrow> (statusError m, w1)
                       | Unreadable m \<Rightarrow> (statusError m, w1)
                       | Refused st errorText \<Rightarrow>
                           (if st = 404 then
                              (\<lparr>statusCode = 404,
                                payload = JObj [(''error'', JStr ''Job not found'')]\<rparr>, w1)
                            else (statusError (''Firestore error: '' @ showNat st), w1))
                       | Accepted doc \<Rightarrow>
                           (\<lparr>statusCode = 200,
                             payload = JObj (convertFromFirestoreFormat doc)\<rparr>, w1))))))"

text \<open>The \<open>POST\<close> branch, from the check of the environment on: what the handler does with
  a destination and a day count that have passed the input validation.\<close>

definition startJob ::
  "host \<Rightarrow> bindings \<Rightarrow> fetchNet \<Rightarrow> string \<Rightarrow> rat \<Rightarrow> world \<Rightarrow> response \<times> world" where
  "startJob h env n destination durationDays w =
     (if \<not> configured (FIREBASE_SERVICE_ACCOUNT_KEY env) \<or> \<not> configured (OPENAI_API_KEY env) then
        (internalError ''Required environment variables not configured'', w)
      else
        (let key = the (FIREBASE_SERVICE_ACCOUNT_KEY env) in
         case JSON_parse h key of
           Inl m \<Rightarrow> (internalError m, w)
         | Inr serviceAccount \<Rightarrow>
            (if serviceAccount = JNull then (internalError (nullReadError h ''project_id''), w)
             else
               (case getAccessToken h key (submitTokenNet n) 1 w of
                  (Inl m, w1) \<Rightarrow> (internalError m, w1)
                | (Inr accessToken, w1) \<Rightarrow>
                   (let jobId = uuid n in
                    case createFirestoreDocument jobId
                           \<lparr>dataStatus = ''processing'',
                            dataDestination = trim destination,
                            dataDurationDays = \<lfloor>durationDays\<rfloor>,
                            dataCreatedAt = now n,
                            dataCompletedAt = None,
                            dataItinerary = None,
                            dataError = None\<rparr>
                           (createNet n) 1 w1 of
                      (Inl m, w2) \<Rightarrow> (internalError m, w2)
                    | (Inr v, w2) \<Rightarrow>
                       (\<lparr>statusCode = 202,
                         payload = JObj
                           [(''jobId'', JStr jobId),
                            (''message'',
                             JStr ''Itinerary generation started with enhanced processing'')]\<rparr>,
                        w2 @ [Schedule
                           \<lparr>taskJobId = jobId,
                            taskDestination = trim destination,
                            taskDurationDays = \<lfloor>durationDays\<rfloor>,
                            taskServiceAccountKey = key,
                            taskOpenaiApiKey = the (OPENAI_API_KEY env)\<rparr>]))))))"

text \<open>The \<open>POST\<close> branch: the submission. Destructuring a body that is \<open>null\<close> throws.
  The tests \<open>!destination\<close> and \<open>typeof destination !== 'string'\<close> let only a non-empty
  string through, the tests \<open>!durationDays\<close> and \<open>typeof durationDays !== 'number'\<close> only
  a number other than zero.\<close>

definition handlePost :: "host \<Rightarrow> bindings \<Rightarrow> fetchNet \<Rightarrow> request \<Rightarrow> world \<Rightarrow> response \<times> world" where
  "handlePost h env n request w =
     (case JSON_parse h (reqBody request) of
        Inl m \<Rightarrow> (internalError m, w)
      | Inr body \<Rightarrow>
         (if body = JNull then (internalError (nullDestructureError h), w)
          else
            (let destination = getProp body ''destination'';
                 durationDays = getProp body ''durationDays''
             in case destination of
                  JStr dest \<Rightarrow>
                    (if dest = [] \<or> length (trim dest) < 2 then
                       (badRequest ''destination is required and must be at least 2 characters long'', w)
                     else
                       (case durationDays of
                          JNum days \<Rightarrow>
                            (if days = 0 \<or> days < 1 \<or> days > 30 \<or> \<not> isInteger days then
                               (badRequest ''durationDays must be an integer between 1 and 30'', w)
                             else startJob h env n dest days w)
                        | _ \<Rightarrow>
                            (badRequest ''durationDays must be an integer between 1 and 30'', w)))
                | _ \<Rightarrow>
                    (badRequest ''destination is required and must be at least 2 characters long'', w))))"

text \<open>The exported \<open>fetch\<close> handler.\<close>

definition fetch :: "host \<Rightarrow> bindings \<Rightarrow> fetchNet \<Rightarrow> request \<Rightarrow> world \<Rightarrow> response \<times> world" where
  "fetch h env n request w =
     (if reqMethod request = ''OPTIONS'' then (\<lparr>statusCode = 200, payload = JNull\<rparr>, w)
      else if reqMethod request = ''GET'' then handleGet h env n request w
      else if reqMethod request \<noteq> ''POST'' then
        (\<lparr>statusCode = 405, payload = JStr ''Method not allowed''\<rparr>, w)
      else handlePost h env n request w)"

text \<open>A background task, once scheduled, runs \<open>processItineraryGeneration\<close> on the
  arguments it was scheduled with.\<close>

definition runTask :: "host \<Rightarrow> jobNet \<Rightarrow> task \<Rightarrow> world \<Rightarrow> world" where
  "runTask h n t w =
     processItineraryGeneration h n (taskJobId t) (taskDestination t) (taskDurationDays t)
       (taskServiceAccountKey t) (taskOpenaiApiKey t) w"

section \<open>Job documents as values of the host language\<close>

text \<open>The objects handed to the two store operations, as the values they are in the
  worker: \<open>createdAt\<close> and \<open>completedAt\<close> hold \<open>Date\<close> objects, an absent itinerary or
  error is \<open>null\<close>.\<close>

definition jsActivity :: "activity \<Rightarrow> jsval" where
  "jsActivity a = JObj
     [(''time'', JStr (time a)),
      (''description'', JStr (description a)),
      (''location'', JStr (location a))]"

definition jsDay :: "dayPlan \<Rightarrow> jsval" where
  "jsDay d = JObj
     [(''day'', JNum (of_int (day d))),
      (''theme'', JStr (theme d)),
      (''activities'', JArr (map jsActivity (activities d)))]"

definition jsItinerary :: "dayPlan list option \<Rightarrow> jsval" where
  "jsItinerary v = (case v of None \<Rightarrow> JNull | Some days \<Rightarrow> JArr (map jsDay days))"

definition jsError :: "string option \<Rightarrow> jsval" where
  "jsError v = (case v of None \<Rightarrow> JNull | Some e \<Rightarrow> JStr e)"

definition jsDocData :: "docData \<Rightarrow> (string \<times> jsval) list" where
  "jsDocData data =
     [(''status'', JStr (dataStatus data)),
      (''destination'', JStr (dataDestination data)),
      (''durationDays'', JNum (of_int (dataDurationDays data))),
      (''createdAt'', JDate (dataCreatedAt data)),
      (''completedAt'', (case dataCompletedAt data of None \<Rightarrow> JNull | Some d \<Rightarrow> JDate d)),
      (''itinerary'', jsItinerary (dataItinerary data)),
      (''error'', jsError (dataError data))]"

definition jsPatchData :: "patchData \<Rightarrow> (string \<times> jsval) list" where
  "jsPatchData data =
     [(''status'', JStr (patchStatus data)),
      (''itinerary'', jsItinerary (patchItinerary data)),
      (''completedAt'', JDate (patchCompletedAt data)),
      (''error'', jsError (patchError data))]"

text \<open>A value with every \<open>Date\<close> in it replaced by its ISO text.\<close>

fun isoDates :: "jsval \<Rightarrow> jsval"
  and isoDatesIn :: "jsval list \<Rightarrow> jsval list"
  and isoDatesOf :: "(string \<times> jsval) list \<Rightarrow> (string \<times> jsval) list" where
  "isoDates (JDate d) = JStr (toISOString d)"
| "isoDates (JArr xs) = JArr (isoDatesIn xs)"
| "isoDates (JObj kvs) = JObj (isoDatesOf kvs)"
| "isoDates JUndefined = JUndefined"
| "isoDates JNull = JNull"
| "isoDates (JBool b) = JBool b"
| "isoDates (JNum r) = JNum r"
| "isoDates JNaN = JNaN"
| "isoDates (JStr s) = JStr s"
| "isoDatesIn [] = []"
| "isoDatesIn (x # xs) = isoDates x # isoDatesIn xs"
| "isoDatesOf [] = []"
| "isoDatesOf ((k, v) # kvs) = (k, isoDates v) # isoDatesOf kvs"

section \<open>Reading the log\<close>

text \<open>The background tasks scheduled in a log, oldest first.\<close>

fun scheduled :: "world \<Rightarrow> task list" where
  "scheduled [] = []"
| "scheduled (Schedule t # w) = t # scheduled w"
| "scheduled (e # w) = scheduled w"

definition isSleep :: "event \<Rightarrow> bool" where
  "isSleep e = (case e of Sleep ms \<Rightarrow> True | _ \<Rightarrow> False)"

text \<open>A field of a stored document is non-null when it is there and is not the null value.\<close>

definition nonNull :: "fields \<Rightarrow> string \<Rightarrow> bool" where
  "nonNull doc k = (case map_of doc k of None \<Rightarrow> False | Some NullValue \<Rightarrow> False | Some v \<Rightarrow> True)"

definition statusOf :: "fields \<Rightarrow> string" where
  "statusOf doc = (case map_of doc ''status'' of Some (StringValue s) \<Rightarrow> s | _ \<Rightarrow> [])"

text \<open>A stretch of log in which nothing is scheduled and every write is to the given
  document identifier and leaves a document of the given kind.\<close>

definition writesOnly :: "string \<Rightarrow> (fields \<Rightarrow> bool) \<Rightarrow> event list \<Rightarrow> bool" where
  "writesOnly docId good es =
     list_all (\<lambda>e. case e of Sleep ms \<Rightarrow> True | Write k d \<Rightarrow> k = docId \<and> good d
                      | Schedule t \<Rightarrow> False) es"

text \<open>A document in its initial state, and a document in a terminal state: exactly one of
  itinerary and error is non-null, the itinerary when completed, the error when failed.\<close>

definition processingDoc :: "fields \<Rightarrow> bool" where
  "processingDoc d =
     (statusOf d = ''processing'' \<and> \<not> nonNull d ''itinerary'' \<and> \<not> nonNull d ''error'')"

definition terminalDoc :: "fields \<Rightarrow> bool" where
  "terminalDoc d =
     (statusOf d = ''completed'' \<and> nonNull d ''itinerary'' \<and> \<not> nonNull d ''error''
      \<or> statusOf d = ''failed'' \<and> \<not> nonNull d ''itinerary'' \<and> nonNull d ''error'')"

text \<open>The two patches the background run hands to \<open>updateFirestoreDocument\<close>.\<close>

definition failedForm :: "patchData \<Rightarrow> bool" where
  "failedForm p = (patchStatus p = ''failed'' \<and> patchItinerary p = None
     \<and> (\<exists>m. patchError p = Some (''Generation failed: '' @ m)))"

definition completedForm :: "patchData \<Rightarrow> bool" where
  "completedForm p = (patchStatus p = ''completed'' \<and> patchItinerary p \<noteq> None \<and> patchError p = None)"

section \<open>Concrete runs\<close>

text \<open>Inputs on which the theorems below are exercised.\<close>

definition host0 :: host where
  "host0 = \<lparr>JSON_parse = (\<lambda>s. Inr (JObj [])), createJWT = (\<lambda>v. Inr ''assertion''),
     nullReadError = (\<lambda>k. ''Cannot read properties of null''),
     nullDestructureError = ''Cannot destructure null'',
     largeNumberText = (\<lambda>i. ''1e+21'')\<rparr>"

definition flaky :: "nat \<Rightarrow> jsval reply" where
  "flaky k = (if k < 3 then Refused 503 ''unavailable'' else Accepted (JStr ''token''))"

definition denied :: "nat \<Rightarrow> jsval reply" where
  "denied k = Refused 401 ''invalid_grant''"

definition hostBadJson :: host where
  "hostBadJson = host0\<lparr>JSON_parse := (\<lambda>s. Inl ''Unexpected token o in JSON at position 1'')\<rparr>"

definition visit :: "string \<Rightarrow> jsval" where
  "visit text = JObj [(''time'', JStr ''Morning''), (''description'', JStr text),
                      (''location'', JStr ''Louvre Museum'')]"

definition dayOf :: "rat \<Rightarrow> string \<Rightarrow> jsval" where
  "dayOf k text = JObj [(''day'', JNum k), (''theme'', JStr ''Historical Paris''),
                        (''activities'', JArr [visit text])]"

definition hostOneDay :: host where
  "hostOneDay = host0\<lparr>JSON_parse := (\<lambda>s. Inr (JArr [dayOf 1 ''Visit the Louvre Museum early'']))\<rparr>"

definition answers :: "nat \<Rightarrow> string reply" where
  "answers k = Accepted ''[ ... ]''"

definition busy :: "nat \<Rightarrow> string reply" where
  "busy k = Refused 503 ''overloaded''"

definition env0 :: bindings where
  "env0 = \<lparr>FIREBASE_SERVICE_ACCOUNT_KEY = Some ''{}'', OPENAI_API_KEY = Some ''sk-test''\<rparr>"

definition granted :: "nat \<Rightarrow> jsval reply" where
  "granted k = Accepted (JStr ''token'')"

definition stored :: "nat \<Rightarrow> jsval reply" where
  "stored k = Accepted (JObj [])"

definition net0 :: fetchNet where
  "net0 = \<lparr>statusTokenNet = granted, statusLink = Up, submitTokenNet = granted,
           createNet = stored, uuid = ''job-1'', now = Date ''2025-07-30T10:00:00.000Z''\<rparr>"

definition post :: "string \<Rightarrow> request" where
  "post text = \<lparr>reqMethod = ''POST'', jobIdParam = None, pathname = ''/'', reqBody = text\<rparr>"

text \<open>A host whose \<open>JSON.parse\<close> knows three request bodies and the service account key.\<close>

definition hostApi :: host where
  "hostApi = host0\<lparr>JSON_parse := (\<lambda>s.
      if s = ''short'' then Inr (JObj [(''destination'', JStr '' P ''), (''durationDays'', JNum 3)])
      else if s = ''long'' then Inr (JObj [(''destination'', JStr ''Paris''), (''durationDays'', JNum 31)])
      else if s = ''good'' then Inr (JObj [(''destination'', JStr ''Paris''), (''durationDays'', JNum 3)])
      else if s = ''{}'' then Inr (JObj [(''project_id'', JStr ''demo'')])
      else Inl ''Unexpected token'')\<rparr>"

definition job0 :: docData where
  "job0 = \<lparr>dataStatus = ''processing'', dataDestination = ''Paris'', dataDurationDays = 3,
           dataCreatedAt = Date ''2025-07-30T10:00:00.000Z'', dataCompletedAt = None,
           dataItinerary = None, dataError = None\<rparr>"

definition louvre :: dayPlan where
  "louvre = \<lparr>day = 1, theme = ''Historical Paris'',
             activities = [\<lparr>time = ''Morning'', description = ''Visit the Louvre Museum early'',
                            location = ''Louvre Museum''\<rparr>]\<rparr>"

definition done0 :: patchData where
  "done0 = \<lparr>patchStatus = ''completed'', patchItinerary = Some [louvre],
            patchCompletedAt = Date ''2025-07-30T10:02:30.000Z'', patchError = None\<rparr>"

definition task0 :: task where
  "task0 = \<lparr>taskJobId = ''job-1'', taskDestination = ''Paris'', taskDurationDays = 3,
            taskServiceAccountKey = ''{}'', taskOpenaiApiKey = ''sk-test''\<rparr>"

definition accepted0 :: response where
  "accepted0 = \<lparr>statusCode = 202,
     payload = JObj [(''jobId'', JStr ''job-1''),
                     (''message'', JStr ''Itinerary generation started with enhanced processing'')]\<rparr>"

definition poll :: "string \<Rightarrow> request" where
  "poll jobId = \<lparr>reqMethod = ''GET'', jobIdParam = Some jobId, pathname = ''/'', reqBody = []\<rparr>"

definition threeDays :: jsval where
  "threeDays = JArr [dayOf 1 ''Visit the Louvre Museum early'',
                     dayOf 2 ''Visit the Louvre Museum early'',
                     dayOf 3 ''Visit the Louvre Museum early'']"

definition hostJob :: host where
  "hostJob = hostApi\<lparr>JSON_parse := (\<lambda>s.
      if s = ''[itinerary]'' then Inr threeDays else JSON_parse hostApi s)\<rparr>"

text \<open>A background run in which the store applies the completion and answers it with an
  \<open>ok\<close> response whose body is empty.\<close>

definition garbled :: jobNet where
  "garbled = \<lparr>tokenNet = granted,
     openaiNet = (\<lambda>k. Accepted ''[itinerary]''),
     completedNet = (\<lambda>k. Unreadable ''Unexpected end of JSON input''),
     completedNow = Date ''2025-07-30T10:02:30.000Z'',
     retokenNet = granted,
     failedNet = stored,
     failedNow = Date ''2025-07-30T10:02:31.000Z''\<rparr>"

text \<open>A host whose \<open>JSON.parse\<close> also knows the bodies \<open>null\<close> and \<open>5\<close>.\<close>

definition hostNull :: host where
  "hostNull = hostApi\<lparr>JSON_parse := (\<lambda>s.
      if s = ''null'' then Inr JNull
      else if s = ''5'' then Inr (JNum 5)
      else JSON_parse hostApi s)\<rparr>"

section \<open>Properties\<close>

subsection \<open>What each operation adds to the log\<close>

lemma isSleep_simps [simp]: "isSleep (Sleep n)" "\<not> isSleep (Write k d)" "\<not> isSleep (Schedule t)"
  by (simp_all add: isSleep_def)

lemma getAccessToken_log:
  "\<exists>es. snd (getAccessToken h key net attempt w) = w @ es \<and> list_all isSleep es"
proof (induction h key net attempt w rule: getAccessToken.induct)
  case (1 h key net attempt w)
  show ?case
  proof (cases "tokenAttempt h key (net attempt)")
    case (Inr tok)
    then show ?thesis by (subst getAccessToken.simps) simp
  next
    case (Inl m)
    show ?thesis
    proof (cases "attempt \<le> maxRetries")
      case True
      from "1.IH" [OF Inl True refl]
      obtain es where "snd (getAccessToken h key net (attempt + 1) (w @ [Sleep (calculateDelay attempt)])) = (w @ [Sleep (calculateDelay attempt)]) @ es" "list_all isSleep es"
        by blast
      then have "snd (getAccessToken h key net attempt w) = w @ (Sleep (calculateDelay attempt) # es) \<and> list_all isSleep (Sleep (calculateDelay attempt) # es)"
        using Inl True by (subst getAccessToken.simps) simp
      then show ?thesis by blast
    next
      case False
      then show ?thesis using Inl by (subst getAccessToken.simps) simp
    qed
  qed
qed

lemma generateItinerary_log:
  "\<exists>es. snd (generateItinerary h dd net attempt w) = w @ es \<and> list_all isSleep es"
proof (induction h dd net attempt w rule: generateItinerary.induct)
  case (1 h dd net attempt w)
  show ?case
  proof (cases "generateAttempt h dd (net attempt)")
    case (Inr v)
    then show ?thesis by (subst generateItinerary.simps) simp
  next
    case (Inl m)
    show ?thesis
    proof (cases "attempt \<le> maxRetries \<and> isRetryableError m")
      case True
      from "1.IH" [OF Inl True refl]
      obtain es where "snd (generateItinerary h dd net (attempt + 1) (w @ [Sleep (calculateDelay attempt)])) = (w @ [Sleep (calculateDelay attempt)]) @ es" "list_all isSleep es"
        by blast
      then have "snd (generateItinerary h dd net attempt w) = w @ (Sleep (calculateDelay attempt) # es) \<and> list_all isSleep (Sleep (calculateDelay attempt) # es)"
        using Inl True by (subst generateItinerary.simps) simp
      then show ?thesis by blast
    next
      case False
      then show ?thesis using Inl by (subst generateItinerary.simps) auto
    qed
  qed
qed

lemma writesOnly_Nil [simp]: "writesOnly docId good []"
  by (simp add: writesOnly_def)

lemma writesOnly_append [simp]:
  "writesOnly docId good (u @ v) \<longleftrightarrow> writesOnly docId good u \<and> writesOnly docId good v"
  by (simp add: writesOnly_def)

lemma writesOnly_Cons [simp]:
  "writesOnly docId good (Sleep ms # es) \<longleftrightarrow> writesOnly docId good es"
  "writesOnly docId good (Write k d # es) \<longleftrightarrow> k = docId \<and> good d \<and> writesOnly docId good es"
  "writesOnly docId good (Schedule t # es) \<longleftrightarrow> False"
  by (simp_all add: writesOnly_def)

lemma writesOnly_sleeps: "list_all isSleep es \<Longrightarrow> writesOnly docId good es"
  by (induction es) (auto simp: isSleep_def split: event.splits)

lemma writes_append: "writes (u @ v) = writes u @ writes v"
  by (induction u rule: writes.induct) simp_all

lemma writes_sleeps: "list_all isSleep es \<Longrightarrow> writes es = []"
  by (induction es rule: writes.induct) simp_all

lemma lookupDoc_sleeps: "list_all isSleep es \<Longrightarrow> lookupDoc (w @ es) docId = lookupDoc w docId"
  by (simp add: lookupDoc_def writes_append writes_sleeps)

lemma writesOnly_scheduled: "writesOnly docId good es \<Longrightarrow> scheduled es = []"
  by (induction es rule: scheduled.induct) simp_all

lemma lookupDoc_Write: "lookupDoc (w @ [Write docId d]) docId = Some d"
  by (simp add: lookupDoc_def writes_append)

lemma createAnswer_existing:
  assumes "lookupDoc w docId \<noteq> None"
  shows "\<not> applied (createAnswer w docId r) \<and> (\<exists>m. createAttempt (createAnswer w docId r) = Inl m)"
  using assms by (cases r) (auto simp: createAnswer_def applied_def createAttempt_def)

lemma createFirestoreDocument_existing:
  "lookupDoc w docId \<noteq> None \<Longrightarrow>
     \<exists>m es. createFirestoreDocument docId data net attempt w = (Inl m, w @ es) \<and> list_all isSleep es"
proof (induction docId data net attempt w rule: createFirestoreDocument.induct)
  case (1 docId data net attempt w)
  let ?r = "createAnswer w docId (net attempt)"
  from createAnswer_existing [OF "1.prems", of "net attempt"]
  obtain m where na: "\<not> applied ?r" and m: "createAttempt ?r = Inl m" by blast
  from na have aa: "afterAnswer ?r w docId d = w" for d by (simp add: afterAnswer_def)
  show ?case
  proof (cases "attempt \<le> maxRetries \<and> storeRetryable m")
    case True
    let ?w = "w @ [Sleep (calculateDelay attempt)]"
    have "lookupDoc ?w docId \<noteq> None" using "1.prems" by (simp add: lookupDoc_sleeps)
    with "1.IH" [OF m True refl] aa
    obtain m' es where "createFirestoreDocument docId data net (attempt + 1) ?w = (Inl m', ?w @ es)"
      "list_all isSleep es" by auto
    moreover have "createFirestoreDocument docId data net attempt w =
        createFirestoreDocument docId data net (attempt + 1) ?w"
      using m True aa by (subst createFirestoreDocument.simps) simp
    ultimately show ?thesis
      by (intro exI [of _ m'] exI [of _ "Sleep (calculateDelay attempt) # es"]) simp
  next
    case False
    then have "createFirestoreDocument docId data net attempt w = (Inl m, w)"
      using m aa by (subst createFirestoreDocument.simps) auto
    then show ?thesis by (intro exI [of _ m] exI [of _ "[]"]) simp
  qed
qed

lemma createFirestoreDocument_log:
  "\<exists>es. (case createFirestoreDocument docId data net attempt w of
           (Inl m, w') \<Rightarrow> w' = w @ es \<and> writesOnly docId (\<lambda>d. d = createFirestoreData data) es
         | (Inr v, w') \<Rightarrow> list_all isSleep es \<and> w' = w @ es @ [Write docId (createFirestoreData data)])"
proof (induction docId data net attempt w rule: createFirestoreDocument.induct)
  case (1 docId data net attempt w)
  let ?r = "createAnswer w docId (net attempt)"
  let ?D = "createFirestoreData data"
  show ?case
  proof (cases "createAttempt ?r")
    case (Inr v)
    then have "createFirestoreDocument docId data net attempt w = (Inr v, w @ [] @ [Write docId ?D])"
      by (subst createFirestoreDocument.simps) simp
    then show ?thesis by (intro exI [of _ "[]"]) simp
  next
    case (Inl m)
    let ?w1 = "afterAnswer ?r w docId ?D"
    show ?thesis
    proof (cases "attempt \<le> maxRetries \<and> storeRetryable m")
      case False
      then have "createFirestoreDocument docId data net attempt w = (Inl m, ?w1)"
        using Inl by (subst createFirestoreDocument.simps) auto
      then show ?thesis
        by (intro exI [of _ "if applied ?r then [Write docId ?D] else []"])
           (simp add: afterAnswer_def)
    next
      case True
      let ?w = "?w1 @ [Sleep (calculateDelay attempt)]"
      have eq: "createFirestoreDocument docId data net attempt w =
          createFirestoreDocument docId data net (attempt + 1) ?w"
        using Inl True by (subst createFirestoreDocument.simps) simp
      show ?thesis
      proof (cases "applied ?r")
        case False
        then have w1: "?w1 = w" by (simp add: afterAnswer_def)
        from "1.IH" [OF Inl True refl]
        obtain es where es:
          "case createFirestoreDocument docId data net (attempt + 1) ?w of
             (Inl m, w') \<Rightarrow> w' = ?w @ es \<and> writesOnly docId (\<lambda>d. d = ?D) es
           | (Inr v, w') \<Rightarrow> list_all isSleep es \<and> w' = ?w @ es @ [Write docId ?D]"
          by (elim exE) (rule that)
        show ?thesis
          by (rule exI [of _ "Sleep (calculateDelay attempt) # es"])
             (use es in \<open>auto simp: eq w1 split: prod.splits sum.splits\<close>)
      next
        case app: True
        then have w1: "?w1 = w @ [Write docId ?D]" by (simp add: afterAnswer_def)
        have "lookupDoc ?w docId \<noteq> None"
          by (simp add: w1 lookupDoc_sleeps [of "[Sleep (calculateDelay attempt)]" "w @ [Write docId ?D]", simplified] lookupDoc_Write)
        from createFirestoreDocument_existing [OF this, of data net "attempt + 1"]
        obtain m' es where "createFirestoreDocument docId data net (attempt + 1) ?w = (Inl m', ?w @ es)"
          "list_all isSleep es" by blast
        then show ?thesis
          by (intro exI [of _ "Write docId ?D # Sleep (calculateDelay attempt) # es"])
             (simp add: eq w1 writesOnly_sleeps)
      qed
    qed
  qed
qed

lemma updateFirestoreDocument_log:
  assumes "\<And>w'. good (patchedDoc w' docId (updateFirestoreData data))"
  shows "\<exists>es. snd (updateFirestoreDocument docId data net attempt w) = w @ es \<and> writesOnly docId good es"
  using assms
proof (induction docId data net attempt w rule: updateFirestoreDocument.induct)
  case (1 docId data net attempt w)
  let ?D = "patchedDoc w docId (updateFirestoreData data)"
  let ?w1 = "afterAnswer (net attempt) w docId ?D"
  have w1: "\<exists>es1. ?w1 = w @ es1 \<and> writesOnly docId good es1"
    using "1.prems" [of w]
    by (intro exI [of _ "if applied (net attempt) then [Write docId ?D] else []"])
       (simp add: afterAnswer_def)
  show ?case
  proof (cases "updateAttempt (net attempt)")
    case (Inr v)
    then have "updateFirestoreDocument docId data net attempt w = (Inr v, w @ [Write docId ?D])"
      by (subst updateFirestoreDocument.simps) simp
    then show ?thesis using "1.prems" [of w] by (intro exI [of _ "[Write docId ?D]"]) simp
  next
    case (Inl m)
    from w1 obtain es1 where es1: "?w1 = w @ es1" "writesOnly docId good es1" by blast
    show ?thesis
    proof (cases "attempt \<le> maxRetries \<and> storeRetryable m")
      case False
      then have "updateFirestoreDocument docId data net attempt w = (Inl m, ?w1)"
        using Inl by (subst updateFirestoreDocument.simps) auto
      with es1 show ?thesis by (intro exI [of _ es1]) simp
    next
      case True
      let ?w = "?w1 @ [Sleep (calculateDelay attempt)]"
      have eq: "updateFirestoreDocument docId data net attempt w =
          updateFirestoreDocument docId data net (attempt + 1) ?w"
        using Inl True by (subst updateFirestoreDocument.simps) simp
      from "1.IH" [OF Inl True refl "1.prems"]
      obtain es where "snd (updateFirestoreDocument docId data net (attempt + 1) ?w) = ?w @ es"
        "writesOnly docId good es" by blast
      with es1 show ?thesis
        by (intro exI [of _ "es1 @ Sleep (calculateDelay attempt) # es"]) (simp add: eq)
    qed
  qed
qed

subsection \<open>Back-off and token acquisition\<close>

lemma calculateDelay_values:
  "calculateDelay (Suc 0) = 1000" "calculateDelay 1 = 1000" "calculateDelay 2 = 2000" "calculateDelay 3 = 4000" "calculateDelay 4 = 8000"
  by (simp_all add: calculateDelay_def baseDelay_def backoffFactor_def maxDelay_def)

lemma getAccessToken_success:
  "tokenAttempt h key (net attempt) = Inr tok \<Longrightarrow> getAccessToken h key net attempt w = (Inr tok, w)"
  by (simp add: getAccessToken.simps)

lemma getAccessToken_retry:
  "tokenAttempt h key (net attempt) = Inl m \<Longrightarrow> attempt \<le> maxRetries \<Longrightarrow>
   attempt' = attempt + 1 \<Longrightarrow> delay = calculateDelay attempt \<Longrightarrow>
   getAccessToken h key net attempt w = getAccessToken h key net attempt' (w @ [Sleep delay])"
  by (subst getAccessToken.simps) simp

lemma getAccessToken_give_up:
  "tokenAttempt h key (net attempt) = Inl m \<Longrightarrow> \<not> attempt \<le> maxRetries \<Longrightarrow>
   getAccessToken h key net attempt w =
     (Inl (''Failed to get access token after '' @ showNat (maxRetries + 1) @ '' attempts: '' @ m), w)"
  by (subst getAccessToken.simps) simp

lemma sleeps_append: "sleeps (u @ v) = sleeps u @ sleeps v"
  by (induction u rule: sleeps.induct) simp_all

text \<open>
  C7. For every attempt number \<open>k \<ge> 1\<close> the delay before the next attempt is
  \<open>min (baseDelay * backoffFactor ^ (k - 1)) maxDelay\<close>, a function of \<open>k\<close> alone,
  with the configured constants 1000, 2 and 30000. Token acquisition whose first two attempts
  fail and whose third succeeds returns the token of the third attempt, and the only effects
  it adds to the log are two suspensions, of 1000 ms and of 2000 ms: 3000 ms in all.
\<close>

theorem retry_delay_formula_and_two_failures:
  "(\<forall>k\<ge>1. calculateDelay k = min (1000 * 2 ^ (k - 1)) 30000)
   \<and> (tokenAttempt h key (net 1) = Inl m1 \<longrightarrow> tokenAttempt h key (net 2) = Inl m2 \<longrightarrow>
      tokenAttempt h key (net 3) = Inr tok \<longrightarrow>
      getAccessToken h key net 1 w = (Inr tok, w @ [Sleep 1000, Sleep 2000])
      \<and> sum_list (sleeps (snd (getAccessToken h key net 1 w))) = sum_list (sleeps w) + 3000)"
proof (intro conjI allI impI)
  fix k :: nat
  show "calculateDelay k = min (1000 * 2 ^ (k - 1)) 30000"
    by (simp add: calculateDelay_def baseDelay_def backoffFactor_def maxDelay_def)
next
  assume a: "tokenAttempt h key (net 1) = Inl m1" "tokenAttempt h key (net 2) = Inl m2"
    "tokenAttempt h key (net 3) = Inr tok"
  have "getAccessToken h key net 1 w = getAccessToken h key net 2 (w @ [Sleep 1000])"
    by (rule getAccessToken_retry [where m = m1]) (use a in \<open>simp_all add: maxRetries_def calculateDelay_values\<close>)
  also have "\<dots> = getAccessToken h key net 3 ((w @ [Sleep 1000]) @ [Sleep 2000])"
    by (rule getAccessToken_retry [where m = m2]) (use a in \<open>simp_all add: maxRetries_def calculateDelay_values\<close>)
  also have "\<dots> = (Inr tok, w @ [Sleep 1000, Sleep 2000])"
    using getAccessToken_success [of h key net 3 tok] a(3) by simp
  finally show r: "getAccessToken h key net 1 w = (Inr tok, w @ [Sleep 1000, Sleep 2000])" .
  have "sum_list (sleeps (w @ [Sleep 1000, Sleep 2000])) = sum_list (sleeps w) + 3000"
    by (simp add: sleeps_append)
  then show "sum_list (sleeps (snd (getAccessToken h key net 1 w))) = sum_list (sleeps w) + 3000"
    unfolding r snd_conv .
qed

theorem retry_delay_formula_and_two_failures_witness:
  "tokenAttempt host0 ''{}'' (flaky 1) = Inl ''Token exchange failed: 503 - unavailable''
   \<and> tokenAttempt host0 ''{}'' (flaky 2) = Inl ''Token exchange failed: 503 - unavailable''
   \<and> tokenAttempt host0 ''{}'' (flaky 3) = Inr (JStr ''token'')
   \<and> calculateDelay 1 = min (1000 * 2 ^ (1 - 1)) 30000
   \<and> getAccessToken host0 ''{}'' flaky 1 [] = (Inr (JStr ''token''), [Sleep 1000, Sleep 2000])
   \<and> sum_list (sleeps (snd (getAccessToken host0 ''{}'' flaky 1 []))) = 3000"
proof -
  have s: "showNat 503 = ''503''" by (simp add: showNat.simps digitChar_def)
  have a: "tokenAttempt host0 ''{}'' (flaky 1) = Inl ''Token exchange failed: 503 - unavailable''"
    "tokenAttempt host0 ''{}'' (flaky 2) = Inl ''Token exchange failed: 503 - unavailable''"
    "tokenAttempt host0 ''{}'' (flaky 3) = Inr (JStr ''token'')"
    by (simp_all add: tokenAttempt_def host0_def flaky_def s)
  from retry_delay_formula_and_two_failures [of host0 "''{}''" flaky _ _ "JStr ''token''" "[]"] a
  show ?thesis by simp
qed

subsection \<open>Token acquisition retries every failure\<close>

lemma showNat_small [simp]:
  "showNat 0 = ''0''" "showNat 1 = ''1''" "showNat 2 = ''2''" "showNat 3 = ''3''" "showNat 4 = ''4''"
  "showNat (Suc 0) = ''1''"
  by (simp_all add: showNat.simps digitChar_def)

lemma maxRetries_simps [simp]:
  "1 \<le> maxRetries" "Suc 0 \<le> maxRetries" "2 \<le> maxRetries" "3 \<le> maxRetries" "\<not> 4 \<le> maxRetries"
  "maxRetries + 1 = 4" "Suc maxRetries = 4"
  by (simp_all add: maxRetries_def)

lemma getAccessToken_four_failures:
  assumes "tokenAttempt h key (net 1) = Inl m1" "tokenAttempt h key (net 2) = Inl m2"
    "tokenAttempt h key (net 3) = Inl m3" "tokenAttempt h key (net 4) = Inl m4"
  shows "getAccessToken h key net 1 w =
     (Inl (''Failed to get access token after 4 attempts: '' @ m4),
      w @ [Sleep 1000, Sleep 2000, Sleep 4000])"
proof -
  have "getAccessToken h key net 1 w = getAccessToken h key net 2 (w @ [Sleep 1000])"
    by (rule getAccessToken_retry [where m = m1]) (use assms in \<open>simp_all add: calculateDelay_values\<close>)
  also have "\<dots> = getAccessToken h key net 3 ((w @ [Sleep 1000]) @ [Sleep 2000])"
    by (rule getAccessToken_retry [where m = m2]) (use assms in \<open>simp_all add: calculateDelay_values\<close>)
  also have "\<dots> = getAccessToken h key net 4 (((w @ [Sleep 1000]) @ [Sleep 2000]) @ [Sleep 4000])"
    by (rule getAccessToken_retry [where m = m3]) (use assms in \<open>simp_all add: calculateDelay_values\<close>)
  also have "\<dots> = (Inl (''Failed to get access token after 4 attempts: '' @ m4),
      ((w @ [Sleep 1000]) @ [Sleep 2000]) @ [Sleep 4000])"
    using getAccessToken_give_up [of h key net 4 m4] assms(4) by simp
  finally show ?thesis by simp
qed

text \<open>
  C5 as stated fails: a token exchange answered with status 401 at every attempt, and
  credential material that does not parse, are each retried three times, with suspensions
  of 1000, 2000 and 4000 ms, before the error is propagated.
\<close>

theorem token_retry_policy_counterexample:
  "getAccessToken host0 ''{}'' denied 1 [] =
     (Inl ''Failed to get access token after 4 attempts: Token exchange failed: 401 - invalid_grant'',
      [Sleep 1000, Sleep 2000, Sleep 4000])
   \<and> getAccessToken hostBadJson ''{}'' flaky 1 [] =
     (Inl ''Failed to get access token after 4 attempts: Unexpected token o in JSON at position 1'',
      [Sleep 1000, Sleep 2000, Sleep 4000])"
proof
  have s: "showNat 401 = ''401''" by (simp add: showNat.simps digitChar_def)
  have a: "tokenAttempt host0 ''{}'' (denied k) = Inl ''Token exchange failed: 401 - invalid_grant''" for k
    by (simp add: tokenAttempt_def host0_def denied_def s)
  show "getAccessToken host0 ''{}'' denied 1 [] =
     (Inl ''Failed to get access token after 4 attempts: Token exchange failed: 401 - invalid_grant'',
      [Sleep 1000, Sleep 2000, Sleep 4000])"
    using getAccessToken_four_failures [OF a a a a, where w = "[]"] by simp
  have b: "tokenAttempt hostBadJson ''{}'' r = Inl ''Unexpected token o in JSON at position 1''" for r
    by (simp add: tokenAttempt_def hostBadJson_def)
  show "getAccessToken hostBadJson ''{}'' flaky 1 [] =
     (Inl ''Failed to get access token after 4 attempts: Unexpected token o in JSON at position 1'',
      [Sleep 1000, Sleep 2000, Sleep 4000])"
    using getAccessToken_four_failures [of hostBadJson "''{}''" flaky _ _ _ _ "[]"] b by simp
qed

text \<open>
  C5 (as amended). Token acquisition applies no retryability test: whatever makes an attempt
  fail (credential material that does not parse, a signing failure, a network error, a
  response of any non-2xx status), while at most \<open>maxRetries = 3\<close> attempts have been made
  the worker suspends for \<open>calculateDelay attempt\<close> and tries again; the failure of the
  fourth attempt is propagated, wrapped as
  \<open>Failed to get access token after 4 attempts: ...\<close>. Four failures in a row therefore
  cost suspensions of 1000, 2000 and 4000 ms.
\<close>

theorem token_retries_every_failure:
  "(tokenAttempt h key (net attempt) = Inl m \<longrightarrow>
      (attempt \<le> maxRetries \<longrightarrow>
         getAccessToken h key net attempt w =
           getAccessToken h key net (attempt + 1) (w @ [Sleep (calculateDelay attempt)]))
    \<and> (maxRetries < attempt \<longrightarrow>
         getAccessToken h key net attempt w =
           (Inl (''Failed to get access token after 4 attempts: '' @ m), w)))
   \<and> (tokenAttempt h key (net 1) = Inl m1 \<longrightarrow> tokenAttempt h key (net 2) = Inl m2 \<longrightarrow>
      tokenAttempt h key (net 3) = Inl m3 \<longrightarrow> tokenAttempt h key (net 4) = Inl m4 \<longrightarrow>
        getAccessToken h key net 1 w =
          (Inl (''Failed to get access token after 4 attempts: '' @ m4),
           w @ [Sleep 1000, Sleep 2000, Sleep 4000]))"
  using getAccessToken_retry [of h key net attempt m "attempt + 1" "calculateDelay attempt" w]
    getAccessToken_give_up [of h key net attempt m w]
    getAccessToken_four_failures [of h key net m1 m2 m3 m4 w]
  by (simp add: not_le)

theorem token_retries_every_failure_witness:
  "tokenAttempt host0 ''{}'' (denied 1) = Inl ''Token exchange failed: 401 - invalid_grant''
   \<and> getAccessToken host0 ''{}'' denied 1 [] = getAccessToken host0 ''{}'' denied 2 [Sleep 1000]
   \<and> tokenAttempt host0 ''{}'' (denied 4) = Inl ''Token exchange failed: 401 - invalid_grant''
   \<and> getAccessToken host0 ''{}'' denied 4 [] =
        (Inl ''Failed to get access token after 4 attempts: Token exchange failed: 401 - invalid_grant'', [])"
proof -
  have s: "showNat 401 = ''401''" by (simp add: showNat.simps digitChar_def)
  have a: "tokenAttempt host0 ''{}'' (denied k) = Inl ''Token exchange failed: 401 - invalid_grant''" for k
    by (simp add: tokenAttempt_def host0_def denied_def s)
  from token_retries_every_failure [of host0 "''{}''" denied 1 _ "[]", THEN conjunct1]
    token_retries_every_failure [of host0 "''{}''" denied 4 _ "[]", THEN conjunct1] a
  show ?thesis by (simp add: calculateDelay_values maxRetries_def numeral_2_eq_2)
qed

subsection \<open>Generation attempts and validation\<close>

lemma generateItinerary_success:
  "generateAttempt h dd (net attempt) = Inr v \<Longrightarrow> generateItinerary h dd net attempt w = (Inr v, w)"
  by (subst generateItinerary.simps) simp

lemma generateItinerary_retry:
  "generateAttempt h dd (net attempt) = Inl m \<Longrightarrow> attempt \<le> maxRetries \<Longrightarrow> isRetryableError m \<Longrightarrow>
   attempt' = attempt + 1 \<Longrightarrow> delay = calculateDelay attempt \<Longrightarrow>
   generateItinerary h dd net attempt w = generateItinerary h dd net attempt' (w @ [Sleep delay])"
  by (subst generateItinerary.simps) simp

lemma generateItinerary_give_up:
  "generateAttempt h dd (net attempt) = Inl m \<Longrightarrow> \<not> (attempt \<le> maxRetries \<and> isRetryableError m) \<Longrightarrow>
   generateItinerary h dd net attempt w =
     (Inl (''Failed to generate itinerary after '' @ showNat attempt @ '' attempts: '' @ m), w)"
  by (subst generateItinerary.simps) auto

lemma isSpace_simps [simp]:
  "isSpace CHR '' ''" "\<not> isSpace CHR ''[''" "\<not> isSpace CHR '']''" "\<not> isSpace CHR ''.''"
  by (simp_all add: isSpace_def)

lemma clean_dots: "cleanOpenAIResponse (trim ''[ ... ]'') = ''[ ... ]''"
  by (simp add: cleanOpenAIResponse_def trim_def trimStart_def trimEnd_def stripLeading_def
      stripTrailingFence_def lastIndexOf_def toLower_def suffix_def)

lemma validate_one_day:
  "validateItinerary h (JArr [dayOf 1 ''Visit the Louvre Museum early'']) 2 = Inl ''Expected 2 days, got 1 days''"
  by (simp add: validateItinerary_def ItinerarySchema_def zArray_def DaySchema_def ActivitySchema_def
      zString_def zPositiveInt_def dayOf_def visit_def getProp_def issuesOf_def valuesOf_def
      isInteger_def toString_def numberText_def)

lemma not_retryable_count: "\<not> isRetryableError ''Expected 2 days, got 1 days''"
  by (simp add: isRetryableError_def)

lemma not_retryable_parse:
  "\<not> isRetryableError ''JSON parsing failed: Unexpected token o in JSON at position 1. Content: [ ... ]''"
  by (simp add: isRetryableError_def)


lemma zString_Inr: "zString n msg path v = Inr s \<Longrightarrow> v = JStr s \<and> n \<le> length s"
  by (auto simp: zString_def split: jsval.splits if_splits)

lemma zString_not_empty: "zString n msg path v \<noteq> Inl []"
  by (auto simp: zString_def split: jsval.splits)

lemma zPositiveInt_Inr: "zPositiveInt msg path v = Inr k \<Longrightarrow> v = JNum (of_int k) \<and> 0 < k"
  by (auto simp: zPositiveInt_def isInteger_def Let_def split: jsval.splits if_splits)

lemma zPositiveInt_not_empty: "zPositiveInt msg path v \<noteq> Inl []"
  by (auto simp: zPositiveInt_def Let_def split: jsval.splits)

lemma issuesOf_empty: "r \<noteq> Inl [] \<Longrightarrow> issuesOf r = [] \<Longrightarrow> \<exists>y. r = Inr y"
  by (cases r) (simp_all add: issuesOf_def)

lemma valuesOf_all_Inr:
  "\<forall>r \<in> set rs. \<exists>y. r = Inr y \<Longrightarrow> rs = map Inr (valuesOf rs)"
  by (induction rs) (auto simp: valuesOf_def)

lemma zArray_Inr:
  assumes "zArray item n msg path v = Inr ys" and ne: "\<And>p x. item p x \<noteq> Inl []"
  shows "\<exists>xs. v = JArr xs \<and> n \<le> length xs \<and> length ys = length xs
           \<and> (\<forall>i < length xs. item (path @ [showNat i]) (xs ! i) = Inr (ys ! i))"
proof -
  from assms(1) obtain xs where v: "v = JArr xs"
    by (auto simp: zArray_def split: jsval.splits)
  let ?rs = "map (\<lambda>(i, x). item (path @ [showNat i]) x) (enumerate 0 xs)"
  from assms(1) have n: "n \<le> length xs" and iss: "concat (map issuesOf ?rs) = []"
    and ys: "ys = valuesOf ?rs"
    by (auto simp: zArray_def v Let_def split: if_splits)
  have "\<forall>r \<in> set ?rs. \<exists>y. r = Inr y"
  proof
    fix r assume r: "r \<in> set ?rs"
    with iss have "issuesOf r = []" by auto
    moreover from r have "r \<noteq> Inl []" using ne by auto
    ultimately show "\<exists>y. r = Inr y" by (rule issuesOf_empty [rotated])
  qed
  then have rs: "?rs = map Inr ys" unfolding ys by (rule valuesOf_all_Inr)
  then have len: "length ys = length xs"
    by (metis length_enumerate length_map)
  have "item (path @ [showNat i]) (xs ! i) = Inr (ys ! i)" if "i < length xs" for i
  proof -
    have "?rs ! i = item (path @ [showNat i]) (xs ! i)"
      using that by (simp add: nth_enumerate_eq)
    moreover have "map Inr ys ! i = Inr (ys ! i)" using that len by simp
    ultimately show ?thesis using rs by metis
  qed
  with v n len show ?thesis by blast
qed

lemma ActivitySchema_Inr:
  "ActivitySchema path v = Inr a \<Longrightarrow>
     getProp v ''time'' = JStr (time a) \<and> 1 \<le> length (time a)
   \<and> getProp v ''description'' = JStr (description a) \<and> 10 \<le> length (description a)
   \<and> getProp v ''location'' = JStr (location a) \<and> 1 \<le> length (location a)"
  by (auto simp: ActivitySchema_def Let_def split: jsval.splits sum.splits dest!: zString_Inr)

lemma ActivitySchema_not_empty: "ActivitySchema path v \<noteq> Inl []"
  by (auto simp: ActivitySchema_def Let_def issuesOf_def zString_not_empty
      split: jsval.splits sum.splits)

lemma zArray_not_empty: "zArray item n msg path v \<noteq> Inl []"
  by (auto simp: zArray_def Let_def split: jsval.splits)

lemma DaySchema_Inr:
  "DaySchema path v = Inr d \<Longrightarrow>
     getProp v ''day'' = JNum (of_int (day d)) \<and> 0 < day d
   \<and> getProp v ''theme'' = JStr (theme d) \<and> 1 \<le> length (theme d)
   \<and> zArray ActivitySchema 1 ''At least one activity is required per day''
         (path @ [''activities'']) (getProp v ''activities'') = Inr (activities d)"
  by (auto simp: DaySchema_def Let_def split: jsval.splits sum.splits
      dest!: zString_Inr zPositiveInt_Inr)

lemma DaySchema_not_empty: "DaySchema path v \<noteq> Inl []"
  by (auto simp: DaySchema_def Let_def issuesOf_def zString_not_empty zPositiveInt_not_empty
      zArray_not_empty split: jsval.splits sum.splits)

lemma checkDaySequence_None:
  "checkDaySequence h ds i = None \<Longrightarrow> j < length ds \<Longrightarrow> day (ds ! j) = int (i + j) + 1"
proof (induction h ds i arbitrary: j rule: checkDaySequence.induct)
  case (1 h i)
  then show ?case by simp
next
  case (2 h d ds i)
  then show ?case by (cases j) (auto split: if_splits)
qed

lemma validateItinerary_Inr:
  "validateItinerary h candidate n = Inr v \<Longrightarrow>
     ItinerarySchema candidate = Inr v \<and> int (length v) = n \<and> checkDaySequence h v 0 = None"
  by (auto simp: validateItinerary_def split: sum.splits if_splits option.splits)


lemma ItinerarySchema_Inr:
  assumes "ItinerarySchema candidate = Inr v"
  shows "\<exists>items. candidate = JArr items \<and> length v = length items
           \<and> (\<forall>i < length items. DaySchema [showNat i] (items ! i) = Inr (v ! i))"
  using zArray_Inr [OF assms [unfolded ItinerarySchema_def] DaySchema_not_empty] by auto

lemma validate_defs:
  "validateItinerary h (JArr [dayOf 1 ''0123456789'']) 1 =
     Inr [\<lparr>day = 1, theme = ''Historical Paris'',
           activities = [\<lparr>time = ''Morning'', description = ''0123456789'',
                          location = ''Louvre Museum''\<rparr>]\<rparr>]"
  by (simp add: validateItinerary_def ItinerarySchema_def zArray_def DaySchema_def ActivitySchema_def
      zString_def zPositiveInt_def dayOf_def visit_def getProp_def issuesOf_def valuesOf_def
      isInteger_def toString_def numberText_def)

lemma showNat_Suc_Suc [simp]: "showNat (Suc (Suc 0)) = ''2''"
  using showNat_small(3) by (simp add: numeral_2_eq_2)

lemma validate_gap:
  "validateItinerary h (JArr [dayOf 1 ''0123456789'', dayOf 3 ''0123456789'']) 2 =
     Inl ''Day sequence error: expected day 2, got day 3''"
  by (simp add: validateItinerary_def ItinerarySchema_def zArray_def DaySchema_def ActivitySchema_def
      zString_def zPositiveInt_def dayOf_def visit_def getProp_def issuesOf_def valuesOf_def
      isInteger_def toString_def numberText_def)

text \<open>
  C4. Validation succeeds only on an array whose length is the expected day count and whose
  element at each 0-based index \<open>i\<close> has the day number \<open>i + 1\<close>; the validated days carry
  the same numbers. Days \<open>[1, 3]\<close> with two days expected fail with the day-sequence error.
\<close>

theorem validate_day_count_and_sequence:
  "(validateItinerary h candidate n = Inr v \<longrightarrow>
      (\<exists>items. candidate = JArr items \<and> int (length items) = n \<and> length v = length items
         \<and> (\<forall>i < length items.
               getProp (items ! i) ''day'' = JNum (of_nat (i + 1)) \<and> day (v ! i) = int i + 1)))
   \<and> validateItinerary h (JArr [dayOf 1 ''0123456789'', dayOf 3 ''0123456789'']) 2 =
        Inl ''Day sequence error: expected day 2, got day 3''"
proof (intro conjI impI)
  assume ok: "validateItinerary h candidate n = Inr v"
  from validateItinerary_Inr [OF ok]
  have sch: "ItinerarySchema candidate = Inr v" and len: "int (length v) = n"
    and seq: "checkDaySequence h v 0 = None" by simp_all
  from ItinerarySchema_Inr [OF sch] obtain items where
    c: "candidate = JArr items" and l: "length v = length items"
    and d: "\<And>i. i < length items \<Longrightarrow> DaySchema [showNat i] (items ! i) = Inr (v ! i)"
    by blast
  have "getProp (items ! i) ''day'' = JNum (of_nat (i + 1)) \<and> day (v ! i) = int i + 1"
    if i: "i < length items" for i
  proof -
    from checkDaySequence_None [OF seq, of i] i l have dv: "day (v ! i) = int i + 1" by simp
    from DaySchema_Inr [OF d [OF i]] have "getProp (items ! i) ''day'' = JNum (of_int (day (v ! i)))"
      by simp
    with dv show ?thesis by simp
  qed
  with c l len show "\<exists>items. candidate = JArr items \<and> int (length items) = n \<and> length v = length items
         \<and> (\<forall>i < length items.
               getProp (items ! i) ''day'' = JNum (of_nat (i + 1)) \<and> day (v ! i) = int i + 1)"
    by auto
next
  show "validateItinerary h (JArr [dayOf 1 ''0123456789'', dayOf 3 ''0123456789'']) 2 =
        Inl ''Day sequence error: expected day 2, got day 3''"
    by (rule validate_gap)
qed

theorem validate_day_count_and_sequence_witness:
  "validateItinerary host0 (JArr [dayOf 1 ''0123456789'']) 1 =
     Inr [\<lparr>day = 1, theme = ''Historical Paris'',
           activities = [\<lparr>time = ''Morning'', description = ''0123456789'',
                          location = ''Louvre Museum''\<rparr>]\<rparr>]
   \<and> (\<exists>items. JArr [dayOf 1 ''0123456789''] = JArr items \<and> int (length items) = 1
         \<and> (\<forall>i < length items. getProp (items ! i) ''day'' = JNum (of_nat (i + 1))))"
  using validate_day_count_and_sequence [of host0 "JArr [dayOf 1 ''0123456789'']" 1]
    validate_defs [of host0]
  by auto

text \<open>
  C2 as stated fails: an activity whose description has ten characters passes validation.
\<close>

theorem description_floor_counterexample:
  "length ''0123456789'' < 20
   \<and> validateItinerary host0 (JArr [dayOf 1 ''0123456789'']) 1 =
     Inr [\<lparr>day = 1, theme = ''Historical Paris'',
           activities = [\<lparr>time = ''Morning'', description = ''0123456789'',
                          location = ''Louvre Museum''\<rparr>]\<rparr>]"
  by (simp add: validateItinerary_def ItinerarySchema_def zArray_def DaySchema_def ActivitySchema_def
      zString_def zPositiveInt_def dayOf_def visit_def getProp_def issuesOf_def valuesOf_def
      isInteger_def toString_def numberText_def)

text \<open>
  C2 (as amended). The floor the schema enforces is ten characters: whenever validation
  succeeds, every activity of every day of the candidate has a description that is a string
  of at least 10 characters; so validation fails whenever some activity's description is
  shorter than 10.
\<close>

theorem validation_rejects_short_descriptions:
  assumes "validateItinerary h candidate n = Inr v"
    and "candidate = JArr items" and "d \<in> set items"
    and "getProp d ''activities'' = JArr acts" and "a \<in> set acts"
  shows "\<exists>s. getProp a ''description'' = JStr s \<and> 10 \<le> length s"
proof -
  from validateItinerary_Inr [OF assms(1)] have "ItinerarySchema candidate = Inr v" by simp
  from ItinerarySchema_Inr [OF this] assms(2)
  have days: "\<And>i. i < length items \<Longrightarrow> DaySchema [showNat i] (items ! i) = Inr (v ! i)"
    by auto
  from assms(3) obtain i where i: "i < length items" "items ! i = d"
    by (auto simp: in_set_conv_nth)
  from DaySchema_Inr [OF days [OF i(1)]] i(2) assms(4)
  have "zArray ActivitySchema 1 ''At least one activity is required per day''
          ([showNat i] @ [''activities'']) (JArr acts) = Inr (activities (v ! i))"
    by simp
  from zArray_Inr [OF this ActivitySchema_not_empty]
  have acts: "\<And>j. j < length acts \<Longrightarrow>
      ActivitySchema (([showNat i] @ [''activities'']) @ [showNat j]) (acts ! j) = Inr (activities (v ! i) ! j)"
    by auto
  from assms(5) obtain j where j: "j < length acts" "acts ! j = a"
    by (auto simp: in_set_conv_nth)
  from ActivitySchema_Inr [OF acts [OF j(1)]] j(2) show ?thesis by auto
qed

theorem validation_rejects_short_descriptions_witness:
  "validateItinerary host0 (JArr [dayOf 1 ''0123456789'']) 1 =
     Inr [\<lparr>day = 1, theme = ''Historical Paris'',
           activities = [\<lparr>time = ''Morning'', description = ''0123456789'',
                          location = ''Louvre Museum''\<rparr>]\<rparr>]
   \<and> dayOf 1 ''0123456789'' \<in> set [dayOf 1 ''0123456789'']
   \<and> getProp (dayOf 1 ''0123456789'') ''activities'' = JArr [visit ''0123456789'']
   \<and> visit ''0123456789'' \<in> set [visit ''0123456789'']
   \<and> (\<exists>s. getProp (visit ''0123456789'') ''description'' = JStr s \<and> 10 \<le> length s)"
proof -
  have g: "getProp (dayOf 1 ''0123456789'') ''activities'' = JArr [visit ''0123456789'']"
    by (simp add: getProp_def dayOf_def)
  from validation_rejects_short_descriptions [OF validate_defs [of host0] refl _ g,
      of "visit ''0123456789''"]
  show ?thesis using validate_defs [of host0] g by simp
qed


lemma generateAttempt_one_day:
  "generateAttempt hostOneDay 2 (answers k) = Inl ''Expected 2 days, got 1 days''"
  by (simp add: generateAttempt_def answers_def hostOneDay_def host0_def validate_one_day)

lemma generateAttempt_bad_json:
  "generateAttempt hostBadJson 2 (answers k) =
     Inl ''JSON parsing failed: Unexpected token o in JSON at position 1. Content: [ ... ]''"
  by (simp add: generateAttempt_def answers_def hostBadJson_def host0_def clean_dots)

text \<open>
  C3 as stated fails: with all retries still available, a validation failure (one day
  where two are expected) and a parse failure are each propagated after the first attempt,
  with no suspension and no second call of the model.
\<close>

theorem content_failure_retry_counterexample:
  "generateItinerary hostOneDay 2 answers 1 [] =
     (Inl ''Failed to generate itinerary after 1 attempts: Expected 2 days, got 1 days'', [])
   \<and> generateItinerary hostBadJson 2 answers 1 [] =
     (Inl ''Failed to generate itinerary after 1 attempts: JSON parsing failed: Unexpected token o in JSON at position 1. Content: [ ... ]'', [])"
  using generateItinerary_give_up [of hostOneDay 2 answers 1 _ "[]"]
    generateItinerary_give_up [of hostBadJson 2 answers 1 _ "[]"]
    generateAttempt_one_day [of 1] generateAttempt_bad_json [of 1]
    not_retryable_count not_retryable_parse
  by simp

text \<open>
  C3 (as amended). A failed generation attempt, a parse or validation failure included, is
  retried only when at most \<open>maxRetries = 3\<close> attempts have been made and its error message
  contains one of the markers \<open>Rate limited\<close>, \<open>server error\<close>, \<open>500\<close>, \<open>502\<close>,
  \<open>503\<close>, \<open>timeout\<close>; then the worker suspends for \<open>calculateDelay attempt\<close> and calls
  the model again. Otherwise the failure is propagated at once, wrapped as
  \<open>Failed to generate itinerary after k attempts: ...\<close>, and the model is not called again.
\<close>

theorem generation_retries_only_marked_failures:
  "generateAttempt h durationDays (net attempt) = Inl m \<Longrightarrow>
     (attempt \<le> maxRetries \<and> isRetryableError m \<longrightarrow>
        generateItinerary h durationDays net attempt w =
          generateItinerary h durationDays net (attempt + 1) (w @ [Sleep (calculateDelay attempt)]))
   \<and> (\<not> (attempt \<le> maxRetries \<and> isRetryableError m) \<longrightarrow>
        generateItinerary h durationDays net attempt w =
          (Inl (''Failed to generate itinerary after '' @ showNat attempt @ '' attempts: '' @ m), w))"
  using generateItinerary_retry [of h durationDays net attempt m "attempt + 1" "calculateDelay attempt" w]
    generateItinerary_give_up [of h durationDays net attempt m w]
  by blast

theorem generation_retries_only_marked_failures_witness:
  "generateAttempt hostOneDay 2 (answers 1) = Inl ''Expected 2 days, got 1 days''
   \<and> \<not> (1 \<le> maxRetries \<and> isRetryableError ''Expected 2 days, got 1 days'')
   \<and> generateItinerary hostOneDay 2 answers 1 [] =
       (Inl ''Failed to generate itinerary after 1 attempts: Expected 2 days, got 1 days'', [])
   \<and> generateAttempt host0 2 (busy 1) = Inl ''OpenAI server error: 503 - overloaded''
   \<and> 1 \<le> maxRetries \<and> isRetryableError ''OpenAI server error: 503 - overloaded''
   \<and> generateItinerary host0 2 busy 1 [] = generateItinerary host0 2 busy 2 [Sleep 1000]"
proof -
  have s: "showNat 503 = ''503''" by (simp add: showNat.simps digitChar_def)
  have a: "generateAttempt host0 2 (busy 1) = Inl ''OpenAI server error: 503 - overloaded''"
    by (simp add: generateAttempt_def busy_def s)
  have r: "isRetryableError ''OpenAI server error: 503 - overloaded''"
    by (simp add: isRetryableError_def)
  from generation_retries_only_marked_failures [of hostOneDay 2 answers 1 _ "[]"]
    generation_retries_only_marked_failures [of host0 2 busy 1 _ "[]"] a r
    generateAttempt_one_day [of 1] not_retryable_count
  show ?thesis by (simp add: calculateDelay_values numeral_2_eq_2)
qed

subsection \<open>Submissions that are turned away\<close>

text \<open>
  C10. A \<open>POST\<close> request whose body is not valid JSON is answered with status 500, the
  internal-error response carrying the parser's message, and nothing is added to the log:
  no document is written and no task is scheduled. The failure is thrown by
  \<open>request.json()\<close> before the input validation runs.
\<close>

theorem invalid_json_body_is_internal_error:
  assumes "reqMethod request = ''POST''" and "JSON_parse h (reqBody request) = Inl m"
  shows "fetch h env n request w = (internalError m, w) \<and> statusCode (internalError m) = 500"
  using assms by (simp add: fetch_def handlePost_def internalError_def)

theorem invalid_json_body_is_internal_error_witness:
  "reqMethod (post ''oops'') = ''POST'' \<and> JSON_parse hostApi (reqBody (post ''oops'')) = Inl ''Unexpected token''
   \<and> fetch hostApi env0 net0 (post ''oops'') [] = (internalError ''Unexpected token'', [])
   \<and> statusCode (internalError ''Unexpected token'') = 500"
proof -
  have a: "reqMethod (post ''oops'') = ''POST''" by (simp add: post_def)
  have b: "JSON_parse hostApi (reqBody (post ''oops'')) = Inl ''Unexpected token''"
    by (simp add: post_def hostApi_def)
  from invalid_json_body_is_internal_error [OF a b, of env0 net0 "[]"] a b show ?thesis by simp
qed

text \<open>
  The input validation. A \<open>POST\<close> request whose body parses to a value other than \<open>null\<close>
  is answered with status 400, and nothing is added to the log (no document is written, no
  task is scheduled, no outbound call is made), whenever its \<open>destination\<close> is not a string
  whose trimmed length is at least 2, or its \<open>durationDays\<close> is not a number that is an
  integer between 1 and 30.
\<close>

theorem invalid_input_is_rejected:
  assumes "reqMethod request = ''POST''" and "JSON_parse h (reqBody request) = Inr body"
    and "body \<noteq> JNull"
    and "(\<forall>d. getProp body ''destination'' = JStr d \<longrightarrow> length (trim d) < 2)
       \<or> (\<forall>r. getProp body ''durationDays'' = JNum r \<longrightarrow> \<not> isInteger r \<or> r < 1 \<or> 30 < r)"
  shows "statusCode (fst (fetch h env n request w)) = 400 \<and> snd (fetch h env n request w) = w"
  using assms
  by (auto simp: fetch_def handlePost_def badRequest_def Let_def split: jsval.splits)

theorem invalid_input_is_rejected_witness:
  "reqMethod (post ''short'') = ''POST''
   \<and> JSON_parse hostApi (reqBody (post ''short'')) = Inr (JObj [(''destination'', JStr '' P ''), (''durationDays'', JNum 3)])
   \<and> length (trim '' P '') < 2
   \<and> statusCode (fst (fetch hostApi env0 net0 (post ''short'') [])) = 400
   \<and> snd (fetch hostApi env0 net0 (post ''short'') []) = []
   \<and> JSON_parse hostApi (reqBody (post ''long'')) = Inr (JObj [(''destination'', JStr ''Paris''), (''durationDays'', JNum 31)])
   \<and> statusCode (fst (fetch hostApi env0 net0 (post ''long'') [])) = 400
   \<and> snd (fetch hostApi env0 net0 (post ''long'') []) = []"
proof -
  have a: "reqMethod (post s) = ''POST''" for s by (simp add: post_def)
  have b: "JSON_parse hostApi (reqBody (post ''short'')) = Inr (JObj [(''destination'', JStr '' P ''), (''durationDays'', JNum 3)])"
    by (simp add: post_def hostApi_def)
  have c: "JSON_parse hostApi (reqBody (post ''long'')) = Inr (JObj [(''destination'', JStr ''Paris''), (''durationDays'', JNum 31)])"
    by (simp add: post_def hostApi_def)
  have t: "length (trim '' P '') < 2"
    by (simp add: trim_def trimStart_def trimEnd_def isSpace_def)
  from invalid_input_is_rejected [OF a b, of env0 net0 "[]"] t
  have 1: "statusCode (fst (fetch hostApi env0 net0 (post ''short'') [])) = 400
     \<and> snd (fetch hostApi env0 net0 (post ''short'') []) = []"
    by (simp add: getProp_def)
  from invalid_input_is_rejected [OF a c, of env0 net0 "[]"]
  have 2: "statusCode (fst (fetch hostApi env0 net0 (post ''long'') [])) = 400
     \<and> snd (fetch hostApi env0 net0 (post ''long'') []) = []"
    by (simp add: getProp_def)
  from a b c t 1 2 show ?thesis by simp
qed

text \<open>
  C8 fails on the code. A \<open>POST\<close> request whose body is the JSON literal \<open>null\<close> has no
  destination and no day count, yet it is not answered 400: the destructuring of the body
  throws before the validation is reached, and the generic handler answers 500. Nothing is
  written or scheduled. Every other body without the two fields, the number \<open>5\<close> for one,
  goes through the validation and is answered 400.
\<close>

theorem null_body_is_answered_500:
  "fetch hostNull env0 net0 (post ''null'') [] = (internalError ''Cannot destructure null'', [])
   \<and> statusCode (internalError ''Cannot destructure null'') = 500
   \<and> getProp JNull ''destination'' = JUndefined \<and> getProp JNull ''durationDays'' = JUndefined
   \<and> statusCode (fst (fetch hostNull env0 net0 (post ''5'') [])) = 400
   \<and> snd (fetch hostNull env0 net0 (post ''5'') []) = []"
  by (simp add: fetch_def handlePost_def post_def hostNull_def hostApi_def host0_def
      internalError_def badRequest_def getProp_def)

subsection \<open>Marshalling and unmarshalling\<close>

lemma digit_cases: "d < 10 \<Longrightarrow> d = 0 \<or> d = 1 \<or> d = 2 \<or> d = 3 \<or> d = 4 \<or> d = 5 \<or> d = 6 \<or> d = 7 \<or> d = 8 \<or> d = (9::nat)"
  by arith

lemma digitVal_digitChar: "d < 10 \<Longrightarrow> digitVal (digitChar d) = Some d"
  by (drule digit_cases) (auto simp: digitChar_def digitVal_def)

lemma isSpace_digitChar: "d < 10 \<Longrightarrow> \<not> isSpace (digitChar d)"
  by (drule digit_cases) (auto simp: digitChar_def isSpace_def)

lemma digitChar_eq_0: "d < 10 \<Longrightarrow> digitChar d = CHR ''0'' \<longleftrightarrow> d = 0"
  by (drule digit_cases) (auto simp: digitChar_def)

lemma digitChar_not_sign: "d < 10 \<Longrightarrow> digitChar d \<noteq> CHR ''-'' \<and> digitChar d \<noteq> CHR ''+''
    \<and> digitChar d \<noteq> CHR ''x'' \<and> digitChar d \<noteq> CHR ''X''"
  by (drule digit_cases) (auto simp: digitChar_def)

lemma isDigitIn_digitChar: "d < 10 \<Longrightarrow> isDigitIn 10 (digitChar d)"
  by (simp add: isDigitIn_def digitVal_digitChar)

lemma showNat_digits: "c \<in> set (showNat n) \<Longrightarrow> isDigitIn 10 c"
proof (induction n rule: showNat.induct)
  case (1 n)
  then show ?case
    by (subst (asm) showNat.simps) (auto simp: isDigitIn_digitChar split: if_splits)
qed

lemma showNat_not_Nil: "showNat n \<noteq> []"
  by (subst showNat.simps) simp

lemma foldl_showNat:
  "foldl (\<lambda>acc c. acc * 10 + the (digitVal c)) 0 (showNat n) = n"
proof (induction n rule: showNat.induct)
  case (1 n)
  show ?case
  proof (cases "n < 10")
    case True
    then show ?thesis by (subst showNat.simps) (simp add: digitVal_digitChar)
  next
    case False
    with 1 show ?thesis
      by (subst showNat.simps) (simp add: digitVal_digitChar)
  qed
qed

lemma readDigits_showNat: "readDigits 10 (showNat n) = Some n"
proof -
  have tw: "takeWhile (isDigitIn 10) (showNat n) = showNat n"
    by (rule takeWhile_eq_all_conv [THEN iffD2]) (auto dest: showNat_digits)
  show ?thesis unfolding readDigits_def tw Let_def
    by (simp add: showNat_not_Nil foldl_showNat)
qed

lemma hd_showNat_pos: "0 < n \<Longrightarrow> hd (showNat n) \<noteq> CHR ''0''"
proof (induction n rule: showNat.induct)
  case (1 n)
  show ?case
  proof (cases "n < 10")
    case True
    with 1(2) show ?thesis by (subst showNat.simps) (simp add: digitChar_eq_0)
  next
    case False
    then have "0 < n div 10" by simp
    with 1(1) False have "hd (showNat (n div 10)) \<noteq> CHR ''0''" by simp
    with False show ?thesis by (subst showNat.simps) (simp add: showNat_not_Nil)
  qed
qed

lemma readUnsigned_showNat: "readUnsigned (showNat n) = Some n"
proof (cases "n < 10")
  case True
  then have "showNat n = [digitChar n]" by (subst showNat.simps) simp
  then show ?thesis using readDigits_showNat [of n] by (simp add: readUnsigned_def)
next
  case False
  then have "hd (showNat n) \<noteq> CHR ''0''" by (intro hd_showNat_pos) simp
  then show ?thesis using readDigits_showNat [of n]
    by (auto simp: readUnsigned_def split: list.splits)
qed

lemma digit_not_space: "isDigitIn 10 c \<Longrightarrow> \<not> isSpace c \<and> c \<noteq> CHR ''-'' \<and> c \<noteq> CHR ''+''"
  by (auto simp: isDigitIn_def digitVal_def isSpace_def Let_def split: if_splits)

lemma parseInt_toString: "parseInt (toString i) = JNum (of_int i)"
proof (cases "i < 0")
  case True
  then have "parseInt (toString i) = JNum (- of_nat (nat (- i)))"
    by (simp add: parseInt_def toString_def trimStart_def isSpace_def readUnsigned_showNat)
  also have "\<dots> = JNum (of_int i)" using True by simp
  finally show ?thesis .
next
  case False
  obtain c cs where s: "showNat (nat i) = c # cs"
    using showNat_not_Nil [of "nat i"] by (cases "showNat (nat i)") auto
  then have "isDigitIn 10 c" using showNat_digits [of c "nat i"] by simp
  then have c: "\<not> isSpace c" "c \<noteq> CHR ''-''" "c \<noteq> CHR ''+''" using digit_not_space by auto
  have "readUnsigned (c # cs) = Some (nat i)" using readUnsigned_showNat [of "nat i"] s by simp
  then have "parseInt (toString i) = JNum (of_nat (nat i))"
    using False c s by (simp add: parseInt_def toString_def trimStart_def)
  also have "\<dots> = JNum (of_int i)" using False by simp
  finally show ?thesis .
qed


lemma convert_activities:
  "convertItems (map activityValue acts) = map jsActivity acts"
  by (induction acts) (simp_all add: activityValue_def jsActivity_def)

lemma convert_days:
  "convertItems (map dayValue days) = map jsDay days"
  by (induction days) (simp_all add: dayValue_def jsDay_def convert_activities parseInt_toString)

lemma isoDates_activities: "isoDatesIn (map jsActivity acts) = map jsActivity acts"
  by (induction acts) (simp_all add: jsActivity_def)

lemma isoDates_days: "isoDatesIn (map jsDay days) = map jsDay days"
  by (induction days) (simp_all add: jsDay_def isoDates_activities)

lemma create_round_trip:
  "convertFromFirestoreFormat (createFirestoreData data) =
     [(''status'', JStr (dataStatus data)),
      (''destination'', JStr (dataDestination data)),
      (''durationDays'', JNum (of_int (dataDurationDays data))),
      (''createdAt'', JStr (toISOString (dataCreatedAt data))),
      (''completedAt'', JNull),
      (''itinerary'', JNull),
      (''error'', JNull)]"
  by (simp add: createFirestoreData_def parseInt_toString)

lemma update_completed_fields:
  "patchItinerary p = Some days \<Longrightarrow> patchError p = None \<Longrightarrow>
   updateFirestoreData p =
     [(''status'', StringValue (patchStatus p)),
      (''completedAt'', TimestampValue (toISOString (patchCompletedAt p))),
      (''itinerary'', ArrayValue (map dayValue days)),
      (''error'', NullValue)]"
  by (simp add: updateFirestoreData_def setField_def)

lemma update_failed_fields:
  "patchItinerary p = None \<Longrightarrow> patchError p = Some e \<Longrightarrow> e \<noteq> [] \<Longrightarrow>
   updateFirestoreData p =
     [(''status'', StringValue (patchStatus p)),
      (''completedAt'', TimestampValue (toISOString (patchCompletedAt p))),
      (''error'', StringValue e),
      (''itinerary'', NullValue)]"
  by (simp add: updateFirestoreData_def setField_def)

text \<open>
  C6 as stated fails: the initial job document holds a \<open>Date\<close> in \<open>createdAt\<close>; after
  marshalling and unmarshalling the field holds a string.
\<close>

theorem marshal_round_trip_counterexample:
  "convertFromFirestoreFormat (createFirestoreData job0) \<noteq> jsDocData job0
   \<and> map_of (jsDocData job0) ''createdAt'' = Some (JDate (Date ''2025-07-30T10:00:00.000Z''))
   \<and> map_of (convertFromFirestoreFormat (createFirestoreData job0)) ''createdAt''
        = Some (JStr ''2025-07-30T10:00:00.000Z'')"
  by (simp add: create_round_trip jsDocData_def job0_def)

text \<open>
  C6 (as amended). For the documents the worker writes, unmarshalling the marshalled
  representation returns the document with every timestamp replaced by its ISO text (a
  string, not a \<open>Date\<close>); strings, integers, \<open>null\<close>, ordered sequences and nested records
  come back unchanged. This holds for the initial document (terminal fields \<open>null\<close>) and,
  property by property, for the two patches: a completion (an itinerary, no error) and a
  failure (no itinerary, a non-empty error message).
\<close>

theorem marshal_round_trip_up_to_timestamps:
  "(dataCompletedAt data = None \<and> dataItinerary data = None \<and> dataError data = None \<longrightarrow>
      convertFromFirestoreFormat (createFirestoreData data) = isoDatesOf (jsDocData data))
   \<and> ((patchItinerary p \<noteq> None \<and> patchError p = None)
       \<or> (patchItinerary p = None \<and> (\<exists>e. patchError p = Some e \<and> e \<noteq> [])) \<longrightarrow>
      map_of (convertFromFirestoreFormat (updateFirestoreData p)) = map_of (isoDatesOf (jsPatchData p)))"
proof (intro conjI impI)
  assume "dataCompletedAt data = None \<and> dataItinerary data = None \<and> dataError data = None"
  then show "convertFromFirestoreFormat (createFirestoreData data) = isoDatesOf (jsDocData data)"
    by (simp add: create_round_trip jsDocData_def jsItinerary_def jsError_def)
next
  assume "(patchItinerary p \<noteq> None \<and> patchError p = None)
       \<or> (patchItinerary p = None \<and> (\<exists>e. patchError p = Some e \<and> e \<noteq> []))"
  then show "map_of (convertFromFirestoreFormat (updateFirestoreData p)) = map_of (isoDatesOf (jsPatchData p))"
  proof (elim disjE conjE exE)
    assume "patchItinerary p \<noteq> None" and e: "patchError p = None"
    then obtain days where d: "patchItinerary p = Some days" by auto
    show ?thesis
      by (rule ext)
         (simp add: update_completed_fields [OF d e] jsPatchData_def jsItinerary_def jsError_def
            d e convert_days isoDates_days)
  next
    fix e assume d: "patchItinerary p = None" and e: "patchError p = Some e" "e \<noteq> []"
    show ?thesis
      by (rule ext)
         (simp add: update_failed_fields [OF d e] jsPatchData_def jsItinerary_def jsError_def d e)
  qed
qed

theorem marshal_round_trip_up_to_timestamps_witness:
  "dataCompletedAt job0 = None \<and> dataItinerary job0 = None \<and> dataError job0 = None
   \<and> convertFromFirestoreFormat (createFirestoreData job0) = isoDatesOf (jsDocData job0)
   \<and> patchItinerary done0 \<noteq> None \<and> patchError done0 = None
   \<and> map_of (convertFromFirestoreFormat (updateFirestoreData done0)) = map_of (isoDatesOf (jsPatchData done0))"
  using marshal_round_trip_up_to_timestamps [of job0 done0]
  by (simp add: job0_def done0_def)

subsection \<open>What a request adds to the log\<close>

lemma scheduled_append: "scheduled (u @ v) = scheduled u @ scheduled v"
  by (induction u rule: scheduled.induct) simp_all

lemma scheduled_sleeps: "list_all isSleep es \<Longrightarrow> scheduled es = []"
  by (induction es rule: scheduled.induct) simp_all

lemma startJob_log:
  "\<exists>es.
     (case startJob h env n dest days w of
        (resp, w') \<Rightarrow>
          (if statusCode resp = 202 then
             list_all isSleep es \<and>
             (\<exists>data t. w' = w @ es @ [Write (uuid n) (createFirestoreData data), Schedule t]
                \<and> taskJobId t = uuid n \<and> dataStatus data = ''processing'')
           else w' = w @ es \<and> writesOnly (uuid n) processingDoc es))"
proof (cases "\<not> configured (FIREBASE_SERVICE_ACCOUNT_KEY env) \<or> \<not> configured (OPENAI_API_KEY env)")
  case True
  then show ?thesis
    by (intro exI [of _ "[]"]) (auto simp: startJob_def internalError_def)
next
  case conf: False
  let ?key = "the (FIREBASE_SERVICE_ACCOUNT_KEY env)"
  show ?thesis
  proof (cases "JSON_parse h ?key")
    case (Inl m)
    with conf show ?thesis
      by (intro exI [of _ "[]"]) (auto simp: startJob_def internalError_def)
  next
    case (Inr serviceAccount)
    show ?thesis
    proof (cases "serviceAccount = JNull")
      case True
      with conf Inr show ?thesis
        by (intro exI [of _ "[]"]) (auto simp: startJob_def internalError_def)
    next
      case notnull: False
      obtain r1 w1 where g: "getAccessToken h ?key (submitTokenNet n) 1 w = (r1, w1)"
        by (cases "getAccessToken h ?key (submitTokenNet n) 1 w")
      from getAccessToken_log [of h ?key "submitTokenNet n" 1 w] g
      obtain es1 where es1: "w1 = w @ es1" "list_all isSleep es1" by auto
      show ?thesis
      proof (cases r1)
        case (Inl m)
        with conf Inr notnull g es1 show ?thesis
          by (intro exI [of _ es1]) (auto simp: startJob_def internalError_def writesOnly_sleeps)
      next
        case tok: (Inr accessToken)
        let ?data = "\<lparr>dataStatus = ''processing'', dataDestination = trim dest,
            dataDurationDays = \<lfloor>days\<rfloor>, dataCreatedAt = now n, dataCompletedAt = None,
            dataItinerary = None, dataError = None\<rparr>"
        obtain r2 w2 where c: "createFirestoreDocument (uuid n) ?data (createNet n) 1 w1 = (r2, w2)"
          by (cases "createFirestoreDocument (uuid n) ?data (createNet n) 1 w1")
        have pd: "processingDoc (createFirestoreData ?data)"
          by (simp add: processingDoc_def statusOf_def nonNull_def createFirestoreData_def)
        from createFirestoreDocument_log [where docId = "uuid n" and data = ?data and net = "createNet n" and attempt = 1 and w = w1] c
        obtain es2 where es2:
          "case r2 of Inl m \<Rightarrow> w2 = w1 @ es2 \<and> writesOnly (uuid n) (\<lambda>d. d = createFirestoreData ?data) es2
                   | Inr v \<Rightarrow> list_all isSleep es2 \<and> w2 = w1 @ es2 @ [Write (uuid n) (createFirestoreData ?data)]"
          by auto
        show ?thesis
        proof (cases r2)
          case (Inl m)
          with es2 have "writesOnly (uuid n) (\<lambda>d. d = createFirestoreData ?data) es2" by simp
          then have "writesOnly (uuid n) processingDoc es2"
            using pd by (auto simp: writesOnly_def list_all_iff split: event.splits)
          with Inl conf Inr notnull g tok c es1 es2 show ?thesis
            by (intro exI [of _ "es1 @ es2"])
               (auto simp: startJob_def internalError_def writesOnly_sleeps)
        next
          case (Inr v)
          with conf \<open>JSON_parse h ?key = Inr serviceAccount\<close> notnull g tok c es1 es2 show ?thesis
            by (intro exI [of _ "es1 @ es2"]) (auto simp: startJob_def Let_def)
        qed
      qed
    qed
  qed
qed

lemma handlePost_cases:
  "(\<exists>resp. handlePost h env n request w = (resp, w) \<and> statusCode resp \<noteq> 202)
   \<or> (\<exists>dest days. handlePost h env n request w = startJob h env n dest days w)"
  by (auto simp: handlePost_def Let_def internalError_def badRequest_def split: sum.splits jsval.splits)

lemma handlePost_log:
  "\<exists>es.
     (case handlePost h env n request w of
        (resp, w') \<Rightarrow>
          (if statusCode resp = 202 then
             list_all isSleep es \<and>
             (\<exists>data t. w' = w @ es @ [Write (uuid n) (createFirestoreData data), Schedule t]
                \<and> taskJobId t = uuid n \<and> dataStatus data = ''processing'')
           else w' = w @ es \<and> writesOnly (uuid n) processingDoc es))"
  using handlePost_cases [of h env n request w]
proof (elim disjE exE conjE)
  fix resp assume "handlePost h env n request w = (resp, w)" "statusCode resp \<noteq> 202"
  then show ?thesis by (intro exI [of _ "[]"]) simp
next
  fix dest days assume "handlePost h env n request w = startJob h env n dest days w"
  then show ?thesis using startJob_log [where h = h and env = env and n = n and dest = dest and days = days and w = w] by simp
qed

lemma handleGet_log:
  "\<exists>es. list_all isSleep es \<and> snd (handleGet h env n request w) = w @ es
     \<and> statusCode (fst (handleGet h env n request w)) \<noteq> 202"
proof -
  let ?key = "the (FIREBASE_SERVICE_ACCOUNT_KEY env)"
  obtain r1 w1 where g: "getAccessToken h ?key (statusTokenNet n) 1 w = (r1, w1)"
    by (cases "getAccessToken h ?key (statusTokenNet n) 1 w")
  from getAccessToken_log [of h ?key "statusTokenNet n" 1 w] g
  obtain es1 where es1: "w1 = w @ es1" "list_all isSleep es1" by auto
  have "snd (handleGet h env n request w) = w \<or> snd (handleGet h env n request w) = w1"
    using g by (auto simp: handleGet_def Let_def split: sum.splits reply.splits)
  moreover have "statusCode (fst (handleGet h env n request w)) \<noteq> 202"
    using g by (auto simp: handleGet_def Let_def statusError_def split: sum.splits reply.splits)
  ultimately show ?thesis
    using es1 by (elim disjE) (auto intro: exI [of _ "[]"] exI [of _ es1])
qed

lemma fetch_log:
  "\<exists>es.
     (case fetch h env n request w of
        (resp, w') \<Rightarrow>
          (if statusCode resp = 202 then
             list_all isSleep es \<and>
             (\<exists>data t. w' = w @ es @ [Write (uuid n) (createFirestoreData data), Schedule t]
                \<and> taskJobId t = uuid n \<and> dataStatus data = ''processing'')
           else w' = w @ es \<and> writesOnly (uuid n) processingDoc es))"
proof -
  consider "reqMethod request = ''OPTIONS''"
    | "reqMethod request \<noteq> ''OPTIONS''" "reqMethod request = ''GET''"
    | "reqMethod request \<noteq> ''OPTIONS''" "reqMethod request \<noteq> ''GET''" "reqMethod request \<noteq> ''POST''"
    | "reqMethod request = ''POST''" by blast
  then show ?thesis
  proof cases
    case 1
    then show ?thesis by (intro exI [of _ "[]"]) (simp add: fetch_def)
  next
    case 2
    from handleGet_log [of h env n request w] obtain es where
      "list_all isSleep es" "snd (handleGet h env n request w) = w @ es"
      "statusCode (fst (handleGet h env n request w)) \<noteq> 202" by blast
    with 2 show ?thesis
      by (intro exI [of _ es]) (auto simp: fetch_def writesOnly_sleeps split: prod.splits)
  next
    case 3
    then show ?thesis by (intro exI [of _ "[]"]) (simp add: fetch_def)
  next
    case 4
    then show ?thesis using handlePost_log [where h = h and env = env and n = n and request = request and w = w] by (simp add: fetch_def)
  qed
qed

subsection \<open>What the background run adds to the log\<close>

lemma map_of_filter_keep:
  "k \<notin> S \<Longrightarrow> map_of (filter (\<lambda>(k, v). k \<notin> S) old) k = map_of old k"
  by (induction old) auto

lemma map_of_filter_drop:
  "k \<in> S \<Longrightarrow> map_of (filter (\<lambda>(k, v). k \<notin> S) old) k = None"
  by (induction old) auto

lemma map_of_mergeFields:
  "map_of (mergeFields old patch) k =
     (case map_of patch k of Some v \<Rightarrow> Some v | None \<Rightarrow> map_of old k)"
proof (cases "map_of patch k")
  case None
  then have "k \<notin> set (map fst patch)" by (simp add: map_of_eq_None_iff)
  from map_of_filter_keep [OF this, of old] None show ?thesis
    by (simp add: mergeFields_def map_add_def split: option.splits)
next
  case (Some v)
  then have "k \<in> set (map fst patch)" by (metis map_of_eq_None_iff option.distinct(1) set_map)
  from map_of_filter_drop [OF this, of old] Some show ?thesis
    by (simp add: mergeFields_def map_add_def)
qed

lemma processing_doc:
  "statusOf (createFirestoreData data) = dataStatus data
   \<and> \<not> nonNull (createFirestoreData data) ''itinerary''
   \<and> \<not> nonNull (createFirestoreData data) ''error''"
  by (simp add: statusOf_def nonNull_def createFirestoreData_def)

lemma completed_doc:
  assumes "completedForm p"
  shows "statusOf (patchedDoc w docId (updateFirestoreData p)) = ''completed''
   \<and> nonNull (patchedDoc w docId (updateFirestoreData p)) ''itinerary''
   \<and> \<not> nonNull (patchedDoc w docId (updateFirestoreData p)) ''error''"
proof -
  from assms obtain days where p: "patchStatus p = ''completed''" "patchItinerary p = Some days"
    "patchError p = None" by (auto simp: completedForm_def)
  show ?thesis
    by (simp add: statusOf_def nonNull_def patchedDoc_def map_of_mergeFields
        update_completed_fields [OF p(2,3)] p(1))
qed

lemma failed_doc:
  assumes "failedForm p"
  shows "statusOf (patchedDoc w docId (updateFirestoreData p)) = ''failed''
   \<and> \<not> nonNull (patchedDoc w docId (updateFirestoreData p)) ''itinerary''
   \<and> nonNull (patchedDoc w docId (updateFirestoreData p)) ''error''"
proof -
  from assms obtain m where p: "patchStatus p = ''failed''" "patchItinerary p = None"
    "patchError p = Some (''Generation failed: '' @ m)" by (auto simp: failedForm_def)
  have ne: "''Generation failed: '' @ m \<noteq> []" by simp
  show ?thesis
    by (simp add: statusOf_def nonNull_def patchedDoc_def map_of_mergeFields
        update_failed_fields [OF p(2,3) ne] p(1))
qed

lemma terminal_patches:
  "failedForm p \<or> completedForm p \<Longrightarrow> terminalDoc (patchedDoc w docId (updateFirestoreData p))"
  using completed_doc [of p w docId] failed_doc [of p w docId] by (auto simp: terminalDoc_def)

lemma reportFailure_log:
  "\<exists>es. reportFailure h n jobId key message accessToken serviceAccount projectId w = w @ es
        \<and> writesOnly jobId terminalDoc es"
proof -
  let ?p = "\<lparr>patchStatus = ''failed'', patchItinerary = None, patchCompletedAt = failedNow n,
     patchError = Some (''Generation failed: '' @ message)\<rparr>"
  have fp: "failedForm ?p" by (simp add: failedForm_def)
  have upd: "\<exists>es. snd (updateFirestoreDocument jobId ?p (failedNet n) 1 w1) = w1 @ es
      \<and> writesOnly jobId terminalDoc es" for w1
    by (rule updateFirestoreDocument_log, rule terminal_patches, rule disjI1, rule fp)
  show ?thesis
  proof (cases "\<not> truthy accessToken \<and> truthy serviceAccount")
    case True
    obtain r1 w1 where g: "getAccessToken h key (retokenNet n) 1 w = (r1, w1)"
      by (cases "getAccessToken h key (retokenNet n) 1 w")
    from getAccessToken_log [of h key "retokenNet n" 1 w] g
    obtain es1 where es1: "w1 = w @ es1" "list_all isSleep es1" by auto
    show ?thesis
    proof (cases r1)
      case (Inl m)
      with True g es1 show ?thesis
        by (intro exI [of _ es1]) (simp add: reportFailure_def writesOnly_sleeps)
    next
      case (Inr tok)
      show ?thesis
      proof (cases "truthy tok \<and> truthy projectId")
        case t: True
        from upd [of w1] obtain es where
          "snd (updateFirestoreDocument jobId ?p (failedNet n) 1 w1) = w1 @ es"
          "writesOnly jobId terminalDoc es" by blast
        with True g Inr t es1 show ?thesis
          by (intro exI [of _ "es1 @ es"]) (auto simp: reportFailure_def writesOnly_sleeps)
      next
        case False
        with True g Inr es1 show ?thesis
          by (intro exI [of _ es1]) (auto simp: reportFailure_def writesOnly_sleeps)
      qed
    qed
  next
    case False
    show ?thesis
    proof (cases "truthy accessToken \<and> truthy projectId")
      case t: True
      from upd [of w] obtain es where
        "snd (updateFirestoreDocument jobId ?p (failedNet n) 1 w) = w @ es"
        "writesOnly jobId terminalDoc es" by blast
      with False t show ?thesis
        by (intro exI [of _ es]) (auto simp: reportFailure_def)
    next
      case f: False
      with False show ?thesis
        by (intro exI [of _ "[]"]) (auto simp: reportFailure_def)
    qed
  qed
qed

lemma reportFailure_after:
  assumes "writesOnly jobId terminalDoc es0"
  shows "\<exists>es. reportFailure h n jobId key message accessToken serviceAccount projectId (w @ es0) = w @ es
        \<and> writesOnly jobId terminalDoc es"
proof -
  from reportFailure_log [of h n jobId key message accessToken serviceAccount projectId "w @ es0"]
  obtain es where
    "reportFailure h n jobId key message accessToken serviceAccount projectId (w @ es0) = (w @ es0) @ es"
    "writesOnly jobId terminalDoc es" by blast
  with assms show ?thesis by (intro exI [of _ "es0 @ es"]) simp
qed

lemma processItineraryGeneration_log:
  "\<exists>es. processItineraryGeneration h n jobId destination durationDays key openaiApiKey w = w @ es
        \<and> writesOnly jobId terminalDoc es"
  (is "\<exists>es. ?Q es")
proof -
  have fail: "\<exists>es. ?Q es"
    if "writesOnly jobId terminalDoc es0"
      "processItineraryGeneration h n jobId destination durationDays key openaiApiKey w =
         reportFailure h n jobId key message accessToken serviceAccount projectId (w @ es0)"
    for es0 message accessToken serviceAccount projectId
    using reportFailure_after [OF that(1), of h n key message accessToken serviceAccount projectId w]
    unfolding that(2) by blast
  show ?thesis
  proof (cases "JSON_parse h key")
    case (Inl m)
    then show ?thesis
      by (intro fail [of "[]" m JNull JNull JNull]) (simp_all add: processItineraryGeneration_def)
  next
    case sa: (Inr serviceAccount)
    show ?thesis
    proof (cases "serviceAccount = JNull")
      case True
      with sa show ?thesis
        by (intro fail [of "[]" "nullReadError h ''project_id''" JNull serviceAccount JNull])
           (simp_all add: processItineraryGeneration_def)
    next
      case nn: False
      let ?projectId = "getProp serviceAccount ''project_id''"
      obtain r1 w1 where g: "getAccessToken h key (tokenNet n) 1 w = (r1, w1)"
        by (cases "getAccessToken h key (tokenNet n) 1 w")
      from getAccessToken_log [of h key "tokenNet n" 1 w] g
      obtain es1 where es1: "w1 = w @ es1" "list_all isSleep es1" by auto
      show ?thesis
      proof (cases r1)
        case (Inl m)
        with sa nn g es1 show ?thesis
          by (intro fail [of es1 m JNull serviceAccount ?projectId])
             (simp_all add: processItineraryGeneration_def writesOnly_sleeps)
      next
        case tok: (Inr accessToken)
        obtain r2 w2 where gi: "generateItinerary h durationDays (openaiNet n) 1 w1 = (r2, w2)"
          by (cases "generateItinerary h durationDays (openaiNet n) 1 w1")
        from generateItinerary_log [of h durationDays "openaiNet n" 1 w1] gi
        obtain es2 where es2: "w2 = w1 @ es2" "list_all isSleep es2" by auto
        show ?thesis
        proof (cases r2)
          case (Inl m)
          with sa nn g tok gi es1 es2 show ?thesis
            by (intro fail [of "es1 @ es2" m accessToken serviceAccount ?projectId])
               (simp_all add: processItineraryGeneration_def writesOnly_sleeps)
        next
          case it: (Inr validated)
          let ?p = "\<lparr>patchStatus = ''completed'', patchItinerary = Some validated,
             patchCompletedAt = completedNow n, patchError = None\<rparr>"
          have cp: "completedForm ?p" by (simp add: completedForm_def)
          obtain r3 w3 where u: "updateFirestoreDocument jobId ?p (completedNet n) 1 w2 = (r3, w3)"
            by (cases "updateFirestoreDocument jobId ?p (completedNet n) 1 w2")
          have "\<exists>es. snd (updateFirestoreDocument jobId ?p (completedNet n) 1 w2) = w2 @ es
              \<and> writesOnly jobId terminalDoc es"
            by (rule updateFirestoreDocument_log, rule terminal_patches, rule disjI2, rule cp)
          with u obtain es3 where es3: "w3 = w2 @ es3" "writesOnly jobId terminalDoc es3" by auto
          show ?thesis
          proof (cases r3)
            case (Inl m)
            with sa nn g tok gi it u es1 es2 es3 show ?thesis
              by (intro fail [of "es1 @ es2 @ es3" m accessToken serviceAccount ?projectId])
                 (simp_all add: processItineraryGeneration_def writesOnly_sleeps)
          next
            case (Inr v)
            have "processItineraryGeneration h n jobId destination durationDays key openaiApiKey w = w3"
              using sa nn g tok gi it u Inr by (simp add: processItineraryGeneration_def)
            with es1 es2 es3 show ?thesis
              by (intro exI [of _ "es1 @ es2 @ es3"]) (simp add: writesOnly_sleeps)
          qed
        qed
      qed
    qed
  qed
qed

text \<open>
  Every document the background run writes is a document of its own job in a terminal state,
  with exactly one of itinerary and error non-null; the run schedules nothing.
\<close>

lemma background_writes_terminal_documents:
  "\<exists>es. runTask h jn t w = w @ es \<and> writesOnly (taskJobId t) terminalDoc es"
  unfolding runTask_def by (rule processItineraryGeneration_log)

subsection \<open>The life of a job document\<close>

lemma updateFirestoreDocument_unreadable:
  "net attempt = Unreadable m \<Longrightarrow> \<not> storeRetryable m \<Longrightarrow>
   updateFirestoreDocument docId p net attempt w =
     (Inl m, w @ [Write docId (patchedDoc w docId (updateFirestoreData p))])"
  by (subst updateFirestoreDocument.simps) (simp add: updateAttempt_def afterAnswer_def applied_def)

lemma updateFirestoreDocument_accepted:
  "net attempt = Accepted v \<Longrightarrow>
   updateFirestoreDocument docId p net attempt w =
     (Inr v, w @ [Write docId (patchedDoc w docId (updateFirestoreData p))])"
  by (subst updateFirestoreDocument.simps) (simp add: updateAttempt_def)

lemma trim_Paris: "trim ''Paris'' = ''Paris''"
  by (simp add: trim_def trimStart_def trimEnd_def isSpace_def)

lemma accepted_run_of:
  assumes "JSON_parse h ''good'' = Inr (JObj [(''destination'', JStr ''Paris''), (''durationDays'', JNum 3)])"
    and "JSON_parse h ''{}'' = Inr (JObj [(''project_id'', JStr ''demo'')])"
    and "createJWT h (JObj [(''project_id'', JStr ''demo'')]) = Inr jwt"
  shows "fetch h env0 net0 (post ''good'') [] =
     (accepted0, [Write ''job-1'' (createFirestoreData job0), Schedule task0])"
proof -
  have tok: "getAccessToken h ''{}'' granted 1 [] = (Inr (JStr ''token''), [])"
    by (rule getAccessToken_success) (simp add: tokenAttempt_def assms granted_def)
  have cr: "createFirestoreDocument ''job-1'' job0 stored 1 [] =
      (Inr (JObj []), [Write ''job-1'' (createFirestoreData job0)])"
    by (subst createFirestoreDocument.simps)
       (simp add: createAttempt_def createAnswer_def lookupDoc_def stored_def)
  have st: "startJob h env0 net0 ''Paris'' 3 [] =
     (accepted0, [Write ''job-1'' (createFirestoreData job0), Schedule task0])"
    using tok cr
    by (simp add: startJob_def env0_def configured_def net0_def assms trim_Paris
        job0_def task0_def accepted0_def Let_def)
  have "handlePost h env0 net0 (post ''good'') [] = startJob h env0 net0 ''Paris'' 3 []"
    by (simp add: handlePost_def post_def assms getProp_def trim_Paris isInteger_def)
  with st show ?thesis by (simp add: fetch_def post_def)
qed

lemma accepted_run:
  "fetch hostApi env0 net0 (post ''good'') [] =
     (accepted0, [Write ''job-1'' (createFirestoreData job0), Schedule task0])"
  by (rule accepted_run_of [where jwt = "''assertion''"]) (simp_all add: hostApi_def host0_def)

lemma threeDays_valid:
  "validateItinerary h threeDays 3 =
     Inr [\<lparr>day = 1, theme = ''Historical Paris'',
           activities = [\<lparr>time = ''Morning'', description = ''Visit the Louvre Museum early'',
                          location = ''Louvre Museum''\<rparr>]\<rparr>,
          \<lparr>day = 2, theme = ''Historical Paris'',
           activities = [\<lparr>time = ''Morning'', description = ''Visit the Louvre Museum early'',
                          location = ''Louvre Museum''\<rparr>]\<rparr>,
          \<lparr>day = 3, theme = ''Historical Paris'',
           activities = [\<lparr>time = ''Morning'', description = ''Visit the Louvre Museum early'',
                          location = ''Louvre Museum''\<rparr>]\<rparr>]"
  by (simp add: threeDays_def validateItinerary_def ItinerarySchema_def zArray_def DaySchema_def
      ActivitySchema_def zString_def zPositiveInt_def dayOf_def visit_def getProp_def issuesOf_def
      valuesOf_def isInteger_def)

lemma clean_itinerary: "cleanOpenAIResponse (trim ''[itinerary]'') = ''[itinerary]''"
  by (simp add: cleanOpenAIResponse_def trim_def trimStart_def trimEnd_def stripLeading_def
      stripTrailingFence_def lastIndexOf_def toLower_def suffix_def isSpace_def)

lemma garbled_run:
  "\<exists>days. runTask hostJob garbled task0 w =
     w @ [Write ''job-1'' (patchedDoc w ''job-1'' (updateFirestoreData
            \<lparr>patchStatus = ''completed'', patchItinerary = Some days,
             patchCompletedAt = Date ''2025-07-30T10:02:30.000Z'', patchError = None\<rparr>)),
          Write ''job-1'' (patchedDoc
            (w @ [Write ''job-1'' (patchedDoc w ''job-1'' (updateFirestoreData
               \<lparr>patchStatus = ''completed'', patchItinerary = Some days,
                patchCompletedAt = Date ''2025-07-30T10:02:30.000Z'', patchError = None\<rparr>))])
            ''job-1'' (updateFirestoreData
            \<lparr>patchStatus = ''failed'', patchItinerary = None,
             patchCompletedAt = Date ''2025-07-30T10:02:31.000Z'',
             patchError = Some ''Generation failed: Unexpected end of JSON input''\<rparr>))]"
proof -
  have key: "JSON_parse hostJob ''{}'' = Inr (JObj [(''project_id'', JStr ''demo'')])"
    by (simp add: hostJob_def hostApi_def host0_def)
  have tok: "getAccessToken hostJob ''{}'' granted 1 w = (Inr (JStr ''token''), w)"
    by (rule getAccessToken_success)
       (simp add: tokenAttempt_def hostJob_def hostApi_def host0_def granted_def)
  obtain days where days: "validateItinerary hostJob threeDays 3 = Inr days"
    using threeDays_valid [of hostJob] by blast
  have gen: "generateItinerary hostJob 3 (\<lambda>k. Accepted ''[itinerary]'') 1 w = (Inr days, w)"
    by (rule generateItinerary_success)
       (simp add: generateAttempt_def clean_itinerary hostJob_def days [unfolded hostJob_def])
  have nr: "\<not> storeRetryable ''Unexpected end of JSON input''"
    by (simp add: storeRetryable_def)
  have u1: "\<And>p w. updateFirestoreDocument ''job-1'' p (\<lambda>k. Unreadable ''Unexpected end of JSON input'') 1 w =
      (Inl ''Unexpected end of JSON input'',
       w @ [Write ''job-1'' (patchedDoc w ''job-1'' (updateFirestoreData p))])"
    by (rule updateFirestoreDocument_unreadable [OF refl nr])
  have u2: "\<And>p w. updateFirestoreDocument ''job-1'' p stored 1 w =
      (Inr (JObj []), w @ [Write ''job-1'' (patchedDoc w ''job-1'' (updateFirestoreData p))])"
    by (rule updateFirestoreDocument_accepted) (simp add: stored_def)
  show ?thesis
    using key tok gen u1 u2
    by (intro exI [of _ days])
       (simp add: runTask_def task0_def processItineraryGeneration_def reportFailure_def garbled_def
          getProp_def Let_def)
qed

lemma failed_status:
  "statusOf (patchedDoc w docId (updateFirestoreData
      \<lparr>patchStatus = ''failed'', patchItinerary = None, patchCompletedAt = stamp,
       patchError = Some (''Generation failed: '' @ m)\<rparr>)) = ''failed''"
  by (rule failed_doc [THEN conjunct1]) (simp add: failedForm_def)

text \<open>
  C1 fails on the code. A submission is accepted and its background run generates a valid
  three-day itinerary. The store applies the completion and answers it with an \<open>ok\<close> response
  whose body cannot be read as JSON: \<open>updateFirestoreDocument\<close>, which has by then logged its
  success, throws from \<open>response.json()\<close>; the \<open>catch\<close> block of
  \<open>processItineraryGeneration\<close> takes this for a failed generation and writes \<open>failed\<close>. The
  documents stored for the job are, in order, \<open>processing\<close>, \<open>completed\<close>, \<open>failed\<close>: a
  terminal state is overwritten.
\<close>

theorem completed_job_is_overwritten_by_failed:
  "fetch hostJob env0 net0 (post ''good'') [] =
     (accepted0, [Write ''job-1'' (createFirestoreData job0), Schedule task0])
   \<and> map (\<lambda>(docId, d). (docId, statusOf d))
        (writes (runTask hostJob garbled task0
           [Write ''job-1'' (createFirestoreData job0), Schedule task0]))
      = [(''job-1'', ''processing''), (''job-1'', ''completed''), (''job-1'', ''failed'')]"
proof
  show "fetch hostJob env0 net0 (post ''good'') [] =
     (accepted0, [Write ''job-1'' (createFirestoreData job0), Schedule task0])"
    by (rule accepted_run_of [where jwt = "''assertion''"])
       (simp_all add: hostJob_def hostApi_def host0_def)
next
  let ?w = "[Write ''job-1'' (createFirestoreData job0), Schedule task0]"
  from garbled_run [of ?w] obtain days where
    r: "runTask hostJob garbled task0 ?w =
     ?w @ [Write ''job-1'' (patchedDoc ?w ''job-1'' (updateFirestoreData
            \<lparr>patchStatus = ''completed'', patchItinerary = Some days,
             patchCompletedAt = Date ''2025-07-30T10:02:30.000Z'', patchError = None\<rparr>)),
          Write ''job-1'' (patchedDoc
            (?w @ [Write ''job-1'' (patchedDoc ?w ''job-1'' (updateFirestoreData
               \<lparr>patchStatus = ''completed'', patchItinerary = Some days,
                patchCompletedAt = Date ''2025-07-30T10:02:30.000Z'', patchError = None\<rparr>))])
            ''job-1'' (updateFirestoreData
            \<lparr>patchStatus = ''failed'', patchItinerary = None,
             patchCompletedAt = Date ''2025-07-30T10:02:31.000Z'',
             patchError = Some ''Generation failed: Unexpected end of JSON input''\<rparr>))]"
    by blast
  have c: "statusOf (patchedDoc w' ''job-1'' (updateFirestoreData
            \<lparr>patchStatus = ''completed'', patchItinerary = Some days,
             patchCompletedAt = Date ''2025-07-30T10:02:30.000Z'', patchError = None\<rparr>)) = ''completed''"
    for w'
    by (rule completed_doc [THEN conjunct1]) (simp add: completedForm_def)
  have f: "statusOf (patchedDoc w' ''job-1'' (updateFirestoreData
            \<lparr>patchStatus = ''failed'', patchItinerary = None,
             patchCompletedAt = Date ''2025-07-30T10:02:31.000Z'',
             patchError = Some ''Generation failed: Unexpected end of JSON input''\<rparr>)) = ''failed''"
    for w'
    using failed_status [of w' "''job-1''" "Date ''2025-07-30T10:02:31.000Z''"
        "''Unexpected end of JSON input''"]
    by simp
  have p: "statusOf (createFirestoreData job0) = ''processing''"
    by (simp add: processing_doc job0_def)
  show "map (\<lambda>(docId, d). (docId, statusOf d)) (writes (runTask hostJob garbled task0 ?w))
      = [(''job-1'', ''processing''), (''job-1'', ''completed''), (''job-1'', ''failed'')]"
    unfolding r by (simp add: c f p)
qed

subsection \<open>The first write comes before the background run\<close>

lemma lookupDoc_written:
  "(docId, p) \<in> set (writes w) \<Longrightarrow> lookupDoc w docId \<noteq> None"
  by (auto simp: lookupDoc_def map_of_eq_None_iff intro: rev_image_eqI)

lemma lookupDoc_last:
  "list_all isSleep es \<Longrightarrow> lookupDoc (w @ es @ [Write docId p, Schedule t]) docId = Some p"
  by (simp add: lookupDoc_def writes_append writes_sleeps)

lemma handleGet_found:
  assumes "lookupDoc w (requestedJobId request) = Some doc"
  shows "(statusCode (fst (handleGet h env n request w)) = 404 \<longrightarrow> (\<exists>text. statusLink n = Erring 404 text))
    \<and> (statusCode (fst (handleGet h env n request w)) = 200 \<longrightarrow>
          payload (fst (handleGet h env n request w)) = JObj (convertFromFirestoreFormat doc))"
proof -
  let ?key = "the (FIREBASE_SERVICE_ACCOUNT_KEY env)"
  obtain r1 w1 where g: "getAccessToken h ?key (statusTokenNet n) 1 w = (r1, w1)"
    by (cases "getAccessToken h ?key (statusTokenNet n) 1 w")
  from getAccessToken_log [of h ?key "statusTokenNet n" 1 w] g
  obtain es1 where es1: "w1 = w @ es1" "list_all isSleep es1" by auto
  have l: "lookupDoc w1 (requestedJobId request) = Some doc"
    using es1 assms by (simp add: lookupDoc_sleeps)
  show ?thesis
    using g l
    by (auto simp: handleGet_def Let_def statusError_def readDoc_def
        split: sum.splits reply.splits link.splits if_splits)
qed


lemma fetch_get: "reqMethod request = ''GET'' \<Longrightarrow> fetch h env n request w = handleGet h env n request w"
  by (simp add: fetch_def)

text \<open>
  C9. The handler hands the background task to \<open>ctx.waitUntil\<close> only after the store has
  accepted the write of the \<open>processing\<close> document: a request that is not accepted
  schedules nothing, and the log of an accepted submission ends with the write of the
  document under the new identifier followed by the scheduling of its task. From then on,
  whatever is appended to the log later (the background run only appends), a status read
  of that identifier is never answered \<open>404\<close> by the worker unless a 404 response itself
  arrives from outside the store; and a status read made at once that is answered 200
  reports status \<open>processing\<close>.
\<close>

theorem processing_write_precedes_background:
  assumes "fetch h env n request w = (resp, w1)"
  shows "(statusCode resp \<noteq> 202 \<longrightarrow> scheduled w1 = scheduled w)
   \<and> (statusCode resp = 202 \<longrightarrow>
        (\<exists>es p t. list_all isSleep es \<and> w1 = w @ es @ [Write (uuid n) p, Schedule t]
           \<and> taskJobId t = uuid n \<and> statusOf p = ''processing'')
      \<and> (\<forall>h' env' n' request' later.
            reqMethod request' = ''GET'' \<longrightarrow> requestedJobId request' = uuid n \<longrightarrow>
            (\<forall>text. statusLink n' \<noteq> Erring 404 text) \<longrightarrow>
            statusCode (fst (fetch h' env' n' request' (w1 @ later))) \<noteq> 404)
      \<and> (\<forall>h' env' n' request'.
            reqMethod request' = ''GET'' \<longrightarrow> requestedJobId request' = uuid n \<longrightarrow>
            statusCode (fst (fetch h' env' n' request' w1)) = 200 \<longrightarrow>
            getProp (payload (fst (fetch h' env' n' request' w1))) ''status'' = JStr ''processing''))"
proof -
  have "\<exists>es.
    (if statusCode resp = 202 then
       list_all isSleep es \<and>
       (\<exists>data t. w1 = w @ es @ [Write (uuid n) (createFirestoreData data), Schedule t]
          \<and> taskJobId t = uuid n \<and> dataStatus data = ''processing'')
     else w1 = w @ es \<and> writesOnly (uuid n) processingDoc es)"
    using fetch_log [where h = h and env = env and n = n and request = request and w = w]
    by (simp add: assms)
  then obtain es where es:
    "if statusCode resp = 202 then
       list_all isSleep es \<and>
       (\<exists>data t. w1 = w @ es @ [Write (uuid n) (createFirestoreData data), Schedule t]
          \<and> taskJobId t = uuid n \<and> dataStatus data = ''processing'')
     else w1 = w @ es \<and> writesOnly (uuid n) processingDoc es"
    by blast
  show ?thesis
  proof (rule conjI; rule impI)
    assume "statusCode resp \<noteq> 202"
    with es show "scheduled w1 = scheduled w"
      by (auto simp: scheduled_append dest: writesOnly_scheduled)
  next
    assume "statusCode resp = 202"
    with es obtain data t where sl: "list_all isSleep es" and
      w1: "w1 = w @ es @ [Write (uuid n) (createFirestoreData data), Schedule t]"
      and t: "taskJobId t = uuid n" and d: "dataStatus data = ''processing''"
      by auto
    let ?p = "createFirestoreData data"
    have a: "\<exists>es p t. list_all isSleep es \<and> w1 = w @ es @ [Write (uuid n) p, Schedule t]
           \<and> taskJobId t = uuid n \<and> statusOf p = ''processing''"
      using sl w1 t d processing_doc [of data] by auto
    have b: "statusCode (fst (fetch h' env' n' request' (w1 @ later))) \<noteq> 404"
      if hyp: "reqMethod request' = ''GET''" "requestedJobId request' = uuid n"
        "\<forall>text. statusLink n' \<noteq> Erring 404 text"
      for h' env' n' request' later
    proof -
      have "(uuid n, ?p) \<in> set (writes (w1 @ later))"
        by (simp add: w1 writes_append)
      then obtain doc where "lookupDoc (w1 @ later) (requestedJobId request') = Some doc"
        using lookupDoc_written [of "uuid n" ?p "w1 @ later"] hyp(2) by auto
      from handleGet_found [OF this, of h' env' n'] hyp(1,3) show ?thesis
        by (auto simp: fetch_get)
    qed
    have c: "getProp (payload (fst (fetch h' env' n' request' w1))) ''status'' = JStr ''processing''"
      if hyp: "reqMethod request' = ''GET''" "requestedJobId request' = uuid n"
        "statusCode (fst (fetch h' env' n' request' w1)) = 200"
      for h' env' n' request'
    proof -
      have "lookupDoc w1 (requestedJobId request') = Some ?p"
        using lookupDoc_last [OF sl, of w "uuid n" ?p t] hyp(2) by (simp add: w1)
      from handleGet_found [OF this, of h' env' n'] hyp(1,3)
      have "payload (fst (fetch h' env' n' request' w1)) = JObj (convertFromFirestoreFormat ?p)"
        by (simp add: fetch_get)
      then show ?thesis by (simp add: create_round_trip getProp_def d)
    qed
    from a b c show "(\<exists>es p t. list_all isSleep es \<and> w1 = w @ es @ [Write (uuid n) p, Schedule t]
           \<and> taskJobId t = uuid n \<and> statusOf p = ''processing'')
      \<and> (\<forall>h' env' n' request' later.
            reqMethod request' = ''GET'' \<longrightarrow> requestedJobId request' = uuid n \<longrightarrow>
            (\<forall>text. statusLink n' \<noteq> Erring 404 text) \<longrightarrow>
            statusCode (fst (fetch h' env' n' request' (w1 @ later))) \<noteq> 404)
      \<and> (\<forall>h' env' n' request'.
            reqMethod request' = ''GET'' \<longrightarrow> requestedJobId request' = uuid n \<longrightarrow>
            statusCode (fst (fetch h' env' n' request' w1)) = 200 \<longrightarrow>
            getProp (payload (fst (fetch h' env' n' request' w1))) ''status'' = JStr ''processing'')"
      by blast
  qed
qed

lemma poll_run:
  "statusCode (fst (fetch hostApi env0 net0 (poll ''job-1'')
      [Write ''job-1'' (createFirestoreData job0), Schedule task0])) = 200"
proof -
  have tok: "getAccessToken hostApi ''{}'' granted 1 w = (Inr (JStr ''token''), w)" for w
    by (rule getAccessToken_success) (simp add: tokenAttempt_def hostApi_def host0_def granted_def)
  show ?thesis
    using tok
    by (simp add: fetch_def poll_def handleGet_def requestedJobId_def env0_def configured_def
        net0_def hostApi_def host0_def readDoc_def lookupDoc_def Let_def)
qed

theorem processing_write_precedes_background_witness:
  "fetch hostApi env0 net0 (post ''good'') [] =
     (accepted0, [Write ''job-1'' (createFirestoreData job0), Schedule task0])
   \<and> statusCode accepted0 = 202
   \<and> reqMethod (poll ''job-1'') = ''GET'' \<and> requestedJobId (poll ''job-1'') = uuid net0
   \<and> (\<forall>text. statusLink net0 \<noteq> Erring 404 text)
   \<and> statusCode (fst (fetch hostApi env0 net0 (poll ''job-1'')
        ([Write ''job-1'' (createFirestoreData job0), Schedule task0] @ [Sleep 1000]))) \<noteq> 404
   \<and> statusCode (fst (fetch hostApi env0 net0 (poll ''job-1'')
        [Write ''job-1'' (createFirestoreData job0), Schedule task0])) = 200
   \<and> getProp (payload (fst (fetch hostApi env0 net0 (poll ''job-1'')
        [Write ''job-1'' (createFirestoreData job0), Schedule task0]))) ''status'' = JStr ''processing''"
proof -
  have s: "statusCode accepted0 = 202" by (simp add: accepted0_def)
  have g: "reqMethod (poll ''job-1'') = ''GET''" "requestedJobId (poll ''job-1'') = uuid net0"
    "\<forall>text. statusLink net0 \<noteq> Erring 404 text"
    by (simp_all add: poll_def requestedJobId_def net0_def)
  from processing_write_precedes_background [OF accepted_run] s
  have 1: "\<forall>h' env' n' request' later.
            reqMethod request' = ''GET'' \<longrightarrow> requestedJobId request' = uuid net0 \<longrightarrow>
            (\<forall>text. statusLink n' \<noteq> Erring 404 text) \<longrightarrow>
            statusCode (fst (fetch h' env' n' request'
              ([Write ''job-1'' (createFirestoreData job0), Schedule task0] @ later))) \<noteq> 404"
    and 2: "\<forall>h' env' n' request'.
            reqMethod request' = ''GET'' \<longrightarrow> requestedJobId request' = uuid net0 \<longrightarrow>
            statusCode (fst (fetch h' env' n' request'
              [Write ''job-1'' (createFirestoreData job0), Schedule task0])) = 200 \<longrightarrow>
            getProp (payload (fst (fetch h' env' n' request'
              [Write ''job-1'' (createFirestoreData job0), Schedule task0]))) ''status'' = JStr ''processing''"
    by blast+
  from 1 g have 3: "statusCode (fst (fetch hostApi env0 net0 (poll ''job-1'')
        ([Write ''job-1'' (createFirestoreData job0), Schedule task0] @ [Sleep 1000]))) \<noteq> 404"
    by blast
  from 2 g poll_run have 4: "getProp (payload (fst (fetch hostApi env0 net0 (poll ''job-1'')
        [Write ''job-1'' (createFirestoreData job0), Schedule task0]))) ''status'' = JStr ''processing''"
    by blast
  from accepted_run s g 3 4 poll_run show ?thesis by blast
qed

end
